theory Spec2Isabelle
  imports Complex_Main
begin

section \<open>JavaScript strings and \<open>parseInt\<close>\<close>

text \<open>
  The two front ends (the v4 script with \<open>AppState\<close> and the older \<open>static/js/app.js\<close>
  with \<open>state\<close>) read tokens typed into text inputs. A JavaScript string is modelled as a
  \<^typ>\<open>string\<close>, one \<^typ>\<open>char\<close> per code unit in the range 0..255; code units above 255
  are outside the model. Number tokens are always strings here (the value of an input
  element), never JavaScript numbers.
\<close>

text \<open>
  ECMAScript \<open>WhiteSpace\<close> and \<open>LineTerminator\<close> code units below 256: TAB, LF, VT, FF, CR,
  SP and NBSP. They are what \<open>String.prototype.trim\<close> and \<open>parseInt\<close> strip.
\<close>

definition isWhiteSpace :: "char \<Rightarrow> bool" where
  "isWhiteSpace c = (of_char c \<in> {9, 10, 11, 12, 13, 32, 160 :: nat})"

text \<open>\<open>input.value.trim()\<close>: white space is removed at both ends.\<close>

definition trim :: "string \<Rightarrow> string" where
  "trim s = rev (dropWhile isWhiteSpace (rev (dropWhile isWhiteSpace s)))"

text \<open>
  The value of a code unit as a digit: \<open>0\<close>..\<open>9\<close> are 0..9, the letters \<open>a\<close>..\<open>z\<close> and
  \<open>A\<close>..\<open>Z\<close> are 10..35. A radix-\<open>R\<close> digit is one whose value is below \<open>R\<close>.
\<close>

definition digitValue :: "char \<Rightarrow> nat option" where
  "digitValue c =
     (let k = of_char c :: nat in
      if 48 \<le> k \<and> k \<le> 57 then Some (k - 48)
      else if 97 \<le> k \<and> k \<le> 122 then Some (k - 87)
      else if 65 \<le> k \<and> k \<le> 90 then Some (k - 55)
      else None)"

definition isRadixDigit :: "nat \<Rightarrow> char \<Rightarrow> bool" where
  "isRadixDigit R c = (case digitValue c of None \<Rightarrow> False | Some d \<Rightarrow> d < R)"

definition digitOf :: "char \<Rightarrow> nat" where
  "digitOf c = (case digitValue c of None \<Rightarrow> 0 | Some d \<Rightarrow> d)"

text \<open>The integer that a string of radix-\<open>R\<close> digits denotes, most significant digit first.\<close>

definition mathInt :: "nat \<Rightarrow> string \<Rightarrow> nat" where
  "mathInt R Z = foldl (\<lambda>acc c. acc * R + digitOf c) 0 Z"

text \<open>
  \<open>parseInt(string)\<close> with no radix argument, step by step as ECMAScript defines it: strip
  leading white space, read an optional sign, switch to radix 16 after a \<open>0x\<close> or \<open>0X\<close>
  prefix, keep the longest prefix of digits, and return \<open>NaN\<close> (here \<open>None\<close>) when that prefix
  is empty. The result is the mathematical integer; the rounding to a double (and \<open>-0\<close>)
  is not modelled, since the callers only test the result against \<open>0\<close>, \<open>36\<close> and the red
  numbers, which rounding does not change.
\<close>

definition parseInt :: "string \<Rightarrow> int option" where
  "parseInt inputString =
     (let S = dropWhile isWhiteSpace inputString;
          sign = (if S \<noteq> [] \<and> hd S = CHR ''-'' then - 1 else 1 :: int);
          S1 = (if S \<noteq> [] \<and> (hd S = CHR ''+'' \<or> hd S = CHR ''-'') then tl S else S);
          hex = (take 2 S1 = ''0x'' \<or> take 2 S1 = ''0X'');
          R = (if hex then 16 else 10 :: nat);
          S2 = (if hex then drop 2 S1 else S1);
          Z = takeWhile (isRadixDigit R) S2
      in if Z = [] then None else Some (sign * int (mathInt R Z)))"

section \<open>Number utilities of the v4 front end\<close>

text \<open>\<open>const RED_NUMBERS = new Set([1, 3, 5, ...])\<close>\<close>

definition RED_NUMBERS :: "int list" where
  "RED_NUMBERS = [1, 3, 5, 7, 9, 12, 14, 16, 18, 19, 21, 23, 25, 27, 30, 32, 34, 36]"

text \<open>\<open>RED_NUMBERS.has(n)\<close>; \<open>NaN\<close> is not a member.\<close>

definition RED_NUMBERS_has :: "int option \<Rightarrow> bool" where
  "RED_NUMBERS_has n = (case n of None \<Rightarrow> False | Some k \<Rightarrow> k \<in> set RED_NUMBERS)"

text \<open>
  \<^verbatim>\<open>
  function getNumberColor(num) {
      const n = parseInt(num);
      if (num === '0' || num === '00' || n === 0) return 'green';
      return RED_NUMBERS.has(n) ? 'red' : 'black';
  }
  \<close>
\<close>

definition getNumberColor :: "string \<Rightarrow> string" where
  "getNumberColor num =
     (let n = parseInt num in
      if num = ''0'' \<or> num = ''00'' \<or> n = Some 0 then ''green''
      else if RED_NUMBERS_has n then ''red'' else ''black'')"

text \<open>
  \<^verbatim>\<open>
  function isValidRouletteNumber(num) {
      if (num === '00') return true;
      const n = parseInt(num);
      return !isNaN(n) && n >= 0 && n <= 36;
  }
  \<close>
\<close>

definition isValidRouletteNumber :: "string \<Rightarrow> bool" where
  "isValidRouletteNumber num =
     (if num = ''00'' then True
      else (case parseInt num of None \<Rightarrow> False | Some n \<Rightarrow> n \<ge> 0 \<and> n \<le> 36))"

section \<open>Number utilities of \<open>static/js/app.js\<close>\<close>

text \<open>
  \<^verbatim>\<open>
  function getNumberColor(num) {
      const redNumbers = [1, 3, 5, 7, 9, 12, 14, 16, 18, 19, 21, 23, 25, 27, 30, 32, 34, 36];
      if (num === '0' || num === '00') return 'green';
      return redNumbers.includes(parseInt(num)) ? 'red' : 'black';
  }
  \<close>
\<close>

definition app_js_getNumberColor :: "string \<Rightarrow> string" where
  "app_js_getNumberColor num =
     (let redNumbers = [1, 3, 5, 7, 9, 12, 14, 16, 18, 19, 21, 23, 25, 27, 30, 32, 34, 36 :: int] in
      if num = ''0'' \<or> num = ''00'' then ''green''
      else if (case parseInt num of None \<Rightarrow> False | Some k \<Rightarrow> k \<in> set redNumbers)
           then ''red'' else ''black'')"

text \<open>
  \<open>app.js\<close> has no validation function; \<open>addWarmupNumber\<close> and \<open>processSpin\<close> both inline
  \<^verbatim>\<open>
  const numInt = parseInt(num);
  if (isNaN(numInt) || numInt < 0 || numInt > 36) { ...reject... }
  \<close>
  The condition of that \<open>if\<close> is \<open>app_js_numberRejected\<close>.
\<close>

definition app_js_numberRejected :: "string \<Rightarrow> bool" where
  "app_js_numberRejected num =
     (let numInt = parseInt num in
      case numInt of None \<Rightarrow> True | Some k \<Rightarrow> k < 0 \<or> k > 36)"

section \<open>Canonical number tokens\<close>

text \<open>
  The decimal numeral of a natural number, as \<open>String(n)\<close> prints it: the tokens
  \<open>"0"\<close> to \<open>"36"\<close> are \<open>token_of_nat 0\<close> to \<open>token_of_nat 36\<close>.
\<close>

definition digitChar :: "nat \<Rightarrow> char" where
  "digitChar d = ''0123456789'' ! d"

fun token_of_nat :: "nat \<Rightarrow> string" where
  "token_of_nat n =
     (if n < 10 then [digitChar n] else token_of_nat (n div 10) @ [digitChar (n mod 10)])"

declare token_of_nat.simps [simp del]

definition isDecimalDigit :: "char \<Rightarrow> bool" where
  "isDecimalDigit c = (48 \<le> (of_char c :: nat) \<and> (of_char c :: nat) \<le> 57)"

definition canonicalTokens :: "string list" where
  "canonicalTokens = map token_of_nat [0..<37] @ [''00'']"

text \<open>
  The resolver contract in the words of the specification, for comparison with the
  validation of the code: a token is valid when it is one of \<open>"0"\<close>..\<open>"36"\<close>, or when it is
  \<open>"00"\<close> and the table is AMERICAN.
\<close>

datatype roulette_type = EUROPEAN | AMERICAN

definition spec_resolver_accepts :: "roulette_type \<Rightarrow> string \<Rightarrow> bool" where
  "spec_resolver_accepts rt tok =
     (tok \<in> set (map token_of_nat [0..<37]) \<or> (tok = ''00'' \<and> rt = AMERICAN))"

section \<open>Client state, server replies and the page\<close>

text \<open>
  A JavaScript number as far as the bankroll check reads it: \<open>NaN\<close>, the two infinities, or
  a finite value (a double is a real number; \<open>-0\<close> and \<open>+0\<close> are both \<open>Finite 0\<close>, which no
  operation here tells apart).
\<close>

datatype js_number = NaN | NegInfinity | Finite real | PosInfinity

text \<open>\<open>!x\<close> on a number: true for \<open>NaN\<close> and zero.\<close>

definition js_not :: "js_number \<Rightarrow> bool" where
  "js_not x = (x = NaN \<or> x = Finite 0)"

text \<open>\<open>x <= 0\<close>; every comparison with \<open>NaN\<close> is false.\<close>

definition js_le_zero :: "js_number \<Rightarrow> bool" where
  "js_le_zero x =
     (case x of NaN \<Rightarrow> False | NegInfinity \<Rightarrow> True | Finite r \<Rightarrow> r \<le> 0 | PosInfinity \<Rightarrow> False)"

text \<open>\<open>x > 0\<close>: what the specification calls a number strictly greater than 0.\<close>

definition js_gt_zero :: "js_number \<Rightarrow> bool" where
  "js_gt_zero x =
     (case x of NaN \<Rightarrow> False | NegInfinity \<Rightarrow> False | Finite r \<Rightarrow> r > 0 | PosInfinity \<Rightarrow> True)"

text \<open>
  \<open>parseFloat(string)\<close> as ECMAScript defines it: strip leading white space and read the
  longest prefix that is a \<open>StrDecimalLiteral\<close>: an optional sign, then \<open>Infinity\<close>, or
  digits with an optional fraction, or a fraction alone, then an optional exponent; with
  no such prefix the result is \<open>NaN\<close>. What follows the prefix is ignored.
\<close>

text \<open>
  The \<open>ExponentPart\<close> at the head of a string (\<open>e\<close> or \<open>E\<close>, an optional sign, at least
  one digit), as an integer; 0 when there is none.
\<close>

definition exponentPart :: "string \<Rightarrow> int" where
  "exponentPart s =
     (if s \<noteq> [] \<and> (hd s = CHR ''e'' \<or> hd s = CHR ''E'')
      then let s1 = tl s;
               negative = (s1 \<noteq> [] \<and> hd s1 = CHR ''-'');
               s2 = (if s1 \<noteq> [] \<and> (hd s1 = CHR ''+'' \<or> hd s1 = CHR ''-'') then tl s1 else s1);
               ds = takeWhile isDecimalDigit s2
           in if ds = [] then 0
              else if negative then - int (mathInt 10 ds) else int (mathInt 10 ds)
      else 0)"

definition pow10 :: "int \<Rightarrow> real" where
  "pow10 e = (if e \<ge> 0 then 10 ^ nat e else 1 / 10 ^ nat (- e))"

text \<open>
  The mathematical value of the longest prefix that is an unsigned decimal literal other
  than \<open>Infinity\<close>: \<open>12\<close>, \<open>12.\<close>, \<open>12.5\<close>, \<open>.5\<close>, each with an optional exponent. \<open>None\<close>
  when the string starts with neither a digit nor a point followed by a digit.
\<close>

definition unsignedDecimal :: "string \<Rightarrow> real option" where
  "unsignedDecimal s =
     (let intDigits = takeWhile isDecimalDigit s;
          rest1 = dropWhile isDecimalDigit s;
          hasPoint = (rest1 \<noteq> [] \<and> hd rest1 = CHR ''.'');
          fracDigits = (if hasPoint then takeWhile isDecimalDigit (tl rest1) else []);
          rest2 = (if hasPoint then dropWhile isDecimalDigit (tl rest1) else rest1)
      in if intDigits = [] \<and> fracDigits = [] then None
         else Some ((real (mathInt 10 intDigits)
                      + real (mathInt 10 fracDigits) / 10 ^ length fracDigits)
                    * pow10 (exponentPart rest2)))"

text \<open>
  The double nearest to a real number, as far as this model goes: a magnitude of at most
  \<open>2^-1075\<close> rounds to zero and one of at least \<open>2^1024 - 2^970\<close> to an infinity; in
  between the value is kept exact. The rounding of the mantissa to 53 bits is not
  modelled; it changes neither the sign of the number nor whether it is zero.
\<close>

definition roundToDouble :: "real \<Rightarrow> js_number" where
  "roundToDouble x =
     (if \<bar>x\<bar> \<le> 1 / 2 ^ 1075 then Finite 0
      else if \<bar>x\<bar> \<ge> 2 ^ 1024 - 2 ^ 970 then (if x < 0 then NegInfinity else PosInfinity)
      else Finite x)"

definition parseFloat :: "string \<Rightarrow> js_number" where
  "parseFloat inputString =
     (let trimmed = dropWhile isWhiteSpace inputString;
          negative = (trimmed \<noteq> [] \<and> hd trimmed = CHR ''-'');
          s = (if trimmed \<noteq> [] \<and> (hd trimmed = CHR ''+'' \<or> hd trimmed = CHR ''-'')
               then tl trimmed else trimmed)
      in if take 8 s = ''Infinity'' then (if negative then NegInfinity else PosInfinity)
         else (case unsignedDecimal s of
                 None \<Rightarrow> NaN
               | Some mv \<Rightarrow> roundToDouble (if negative then - mv else mv)))"

text \<open>
  The \<open>strategies\<close> object: its own properties, with boolean values, in the order in which
  \<open>Object.values\<close> and \<open>JSON.stringify\<close> enumerate them: first the keys that are array
  indices (canonical numerals up to \<open>2^32 - 2\<close>) in ascending numeric order, then the other
  keys in the order of their creation.
\<close>

type_synonym js_object = "(string \<times> bool) list"

definition isArrayIndex :: "string \<Rightarrow> bool" where
  "isArrayIndex key =
     (key \<noteq> [] \<and> list_all isDecimalDigit key \<and> token_of_nat (mathInt 10 key) = key
      \<and> int (mathInt 10 key) \<le> 4294967294)"

text \<open>Assignment to a property that the object already has: the value changes in place.\<close>

fun assignExisting :: "string \<Rightarrow> bool \<Rightarrow> js_object \<Rightarrow> js_object" where
  "assignExisting key v [] = []"
| "assignExisting key v (p # ps) =
     (if fst p = key then (key, v) # ps else p # assignExisting key v ps)"

text \<open>A new array-index key goes after the smaller array-index keys and before the rest.\<close>

fun insertIndexKey :: "string \<Rightarrow> bool \<Rightarrow> js_object \<Rightarrow> js_object" where
  "insertIndexKey key v [] = [(key, v)]"
| "insertIndexKey key v (p # ps) =
     (if isArrayIndex (fst p) \<and> mathInt 10 (fst p) < mathInt 10 key
      then p # insertIndexKey key v ps else (key, v) # p # ps)"

text \<open>
  \<open>strategies[key] = v\<close> with a boolean \<open>v\<close>, on an object created by \<open>{}\<close>. The key
  \<open>__proto__\<close> reaches the setter of \<open>Object.prototype\<close>, which ignores a value that is
  neither an object nor \<open>null\<close>: no property is created. Every other key becomes an own
  property.
\<close>

definition setProperty :: "string \<Rightarrow> bool \<Rightarrow> js_object \<Rightarrow> js_object" where
  "setProperty key v obj =
     (if key = ''__proto__'' then obj
      else if key \<in> fst ` set obj then assignExisting key v obj
      else if isArrayIndex key then insertIndexKey key v obj
      else obj @ [(key, v)])"

text \<open>
  \<open>const state = {bankroll: 0, strategies: {}, warmupNumbers: [], initialized: false}\<close> in
  \<open>app.js\<close>; the v4 \<open>AppState\<close> has the same four fields and \<open>currentScreen: 'setup'\<close>.
\<close>

record state =
  bankroll :: js_number
  strategies :: js_object
  warmupNumbers :: "string list"
  initialized :: bool

record AppState = state +
  currentScreen :: string

definition state_initial :: state where
  "state_initial = \<lparr>bankroll = Finite 0, strategies = [], warmupNumbers = [], initialized = False\<rparr>"

definition AppState_initial :: AppState where
  "AppState_initial =
     \<lparr>bankroll = Finite 0, strategies = [], warmupNumbers = [], initialized = False,
      currentScreen = ''setup''\<rparr>"

text \<open>The requests of the front end to the server, with their JSON bodies.\<close>

datatype api_call =
    Initialize js_number js_object
  | Warmup "string list"
  | Spin string
  | Stats
  | Reset

text \<open>
  What comes back from a request. \<open>Reply success error\<close> is a parsed JSON body with the
  truth value of \<open>data.success\<close> and \<open>data.error\<close> when present. \<open>Thrown\<close> is a rejected
  promise: the network failed, the body was not JSON, or (v4 \<open>apiRequest\<close> only) the status
  was not ok. The reply is an input of each model; it is ignored when no request is sent.
\<close>

datatype api_reply = Reply bool "string option" | Thrown

text \<open>\<open>data.error || fallback\<close>: a missing or empty message gives the fallback.\<close>

definition errorOr :: "string option \<Rightarrow> string \<Rightarrow> string" where
  "errorOr e fallback = (case e of None \<Rightarrow> fallback | Some m \<Rightarrow> if m = [] then fallback else m)"

text \<open>A toast is its message and its type. An outcome is what a handler leaves behind.\<close>

type_synonym toast = "string \<times> string"

record 's outcome =
  newState :: 's
  sent :: "api_call list"
  toasts :: "toast list"

text \<open>
  The HTML page is not part of the sources. The v4 \<open>showScreen\<close> looks its target up with
  \<open>document.getElementById\<close> and does nothing to \<open>AppState\<close> when it is missing, so the page
  is a parameter: the list of the element ids it defines.
\<close>

type_synonym document = "string list"

text \<open>
  \<open>s.replace(pattern, replacement)\<close> with a string pattern: the first occurrence only.
  The replacement is taken literally (the only caller passes the empty string).
\<close>

fun replace :: "string \<Rightarrow> string \<Rightarrow> string \<Rightarrow> string" where
  "replace pat rep [] = (if pat = [] then rep else [])"
| "replace pat rep (c # cs) =
     (if take (length pat) (c # cs) = pat then rep @ drop (length pat) (c # cs)
      else c # replace pat rep cs)"

text \<open>
  \<^verbatim>\<open>
  function showScreen(screenId) {
      ...
      const targetScreen = document.getElementById(screenId);
      if (targetScreen) {
          targetScreen.classList.add('active');
          AppState.currentScreen = screenId.replace('Screen', '');
          ...
  \<close>
\<close>

definition showScreen :: "document \<Rightarrow> string \<Rightarrow> AppState \<Rightarrow> AppState" where
  "showScreen doc screenId s =
     (if screenId \<in> set doc then s\<lparr>currentScreen := replace ''Screen'' [] screenId\<rparr> else s)"

text \<open>
  The strategies collected from the checkboxes (value and checked flag, in document
  order) and \<open>Object.values(strategies).some(v => v === true)\<close>.
\<close>

definition collectStrategies :: "(string \<times> bool) list \<Rightarrow> js_object" where
  "collectStrategies checkboxes =
     foldl (\<lambda>obj checkbox. setProperty (fst checkbox) (snd checkbox) obj) [] checkboxes"

definition hasActiveStrategy :: "js_object \<Rightarrow> bool" where
  "hasActiveStrategy obj = list_ex (\<lambda>v. v = True) (map snd obj)"

section \<open>The handlers of the v4 front end\<close>

text \<open>
  Each handler is a function of its inputs (the value of the input element it reads, the
  reply of the server) and of \<open>AppState\<close>, and returns the new \<open>AppState\<close>, the requests it
  sent and the calls of \<open>showToast\<close>. The elements that a handler dereferences without a
  guard (the inputs, the progress bar, the start button) are taken to exist; \<open>showLoading\<close>,
  \<open>hideLoading\<close>, \<open>updateWarmupDisplay\<close> and \<open>updateGameDisplay\<close> write to the page only and
  are left out. A reply with \<open>data.success\<close> true is taken to carry the fields that
  \<open>updateGameDisplay\<close> reads, so that it does not throw.
\<close>

definition goToWarmup ::
  "document \<Rightarrow> string \<Rightarrow> (string \<times> bool) list \<Rightarrow> api_reply \<Rightarrow> AppState \<Rightarrow> AppState outcome" where
  "goToWarmup doc inputValue checkboxes reply s =
     (let bankrollValue = parseFloat inputValue in
      if js_not bankrollValue \<or> js_le_zero bankrollValue
      then \<lparr>newState = s, sent = [],
            toasts = [(''Por favor, insira uma banca valida'', ''error'')]\<rparr>
      else let obj = collectStrategies checkboxes in
        if \<not> hasActiveStrategy obj
        then \<lparr>newState = s, sent = [],
              toasts = [(''Selecione pelo menos uma estrategia'', ''error'')]\<rparr>
        else let s1 = s\<lparr>bankroll := bankrollValue, strategies := obj\<rparr>;
                 request = Initialize bankrollValue obj in
          (case reply of
             Reply success err \<Rightarrow>
               if success
               then \<lparr>newState = showScreen doc ''warmupScreen'' s1, sent = [request],
                     toasts = [(''Configuracao salva com sucesso!'', ''success'')]\<rparr>
               else \<lparr>newState = s1, sent = [request],
                     toasts = [(errorOr err ''Erro ao inicializar'', ''error'')]\<rparr>
           | Thrown \<Rightarrow>
               \<lparr>newState = s1, sent = [request],
                toasts = [(''Erro ao conectar com o servidor'', ''error'')]\<rparr>))"

definition addWarmupNumber :: "string \<Rightarrow> AppState \<Rightarrow> AppState outcome" where
  "addWarmupNumber inputValue s =
     (let num = trim inputValue in
      if num = [] then \<lparr>newState = s, sent = [], toasts = []\<rparr>
      else if \<not> isValidRouletteNumber num
      then \<lparr>newState = s, sent = [], toasts = [(''Numero invalido! Use 0-36'', ''error'')]\<rparr>
      else if length (warmupNumbers s) \<ge> 12
      then \<lparr>newState = s, sent = [], toasts = [(''Maximo de 12 numeros atingido'', ''warning'')]\<rparr>
      else let s1 = s\<lparr>warmupNumbers := warmupNumbers s @ [num]\<rparr> in
        \<lparr>newState = s1, sent = [],
         toasts = (if length (warmupNumbers s1) = 12
                   then [(''12 numeros inseridos! Pronto para comecar'', ''success'')] else [])\<rparr>)"

definition clearWarmup :: "AppState \<Rightarrow> AppState" where
  "clearWarmup s = s\<lparr>warmupNumbers := []\<rparr>"

text \<open>
  \<open>array.splice(index, 1)\<close>, the array that is left: a negative index counts from the end,
  an index past the end removes nothing.
\<close>

definition splice1 :: "int \<Rightarrow> 'a list \<Rightarrow> 'a list" where
  "splice1 index xs =
     (let len = int (length xs);
          actualStart = (if index < 0 then max (len + index) 0 else min index len);
          actualDeleteCount = min (max 1 0) (len - actualStart)
      in take (nat actualStart) xs @ drop (nat (actualStart + actualDeleteCount)) xs)"

definition removeWarmupNumber :: "int \<Rightarrow> AppState \<Rightarrow> AppState" where
  "removeWarmupNumber index s = s\<lparr>warmupNumbers := splice1 index (warmupNumbers s)\<rparr>"

definition startGame :: "document \<Rightarrow> api_reply \<Rightarrow> AppState \<Rightarrow> AppState outcome" where
  "startGame doc reply s =
     (if length (warmupNumbers s) \<noteq> 12
      then \<lparr>newState = s, sent = [], toasts = [(''Insira exatamente 12 numeros'', ''error'')]\<rparr>
      else let request = Warmup (warmupNumbers s) in
        (case reply of
           Reply success err \<Rightarrow>
             if success
             then \<lparr>newState = showScreen doc ''gameScreen'' (s\<lparr>initialized := True\<rparr>),
                   sent = [request, Stats],
                   toasts = [(''Sistema iniciado com sucesso!'', ''success'')]\<rparr>
             else \<lparr>newState = s, sent = [request],
                   toasts = [(errorOr err ''Erro ao aquecer sistema'', ''error'')]\<rparr>
         | Thrown \<Rightarrow>
             \<lparr>newState = s, sent = [request],
              toasts = [(''Erro ao conectar com o servidor'', ''error'')]\<rparr>))"

definition processSpin :: "string \<Rightarrow> api_reply \<Rightarrow> AppState \<Rightarrow> AppState outcome" where
  "processSpin inputValue reply s =
     (let num = trim inputValue in
      if num = [] then \<lparr>newState = s, sent = [], toasts = []\<rparr>
      else if \<not> isValidRouletteNumber num
      then \<lparr>newState = s, sent = [], toasts = [(''Numero invalido! Use 0-36'', ''error'')]\<rparr>
      else let request = Spin num in
        (case reply of
           Reply success err \<Rightarrow>
             if success then \<lparr>newState = s, sent = [request], toasts = []\<rparr>
             else \<lparr>newState = s, sent = [request],
                   toasts = [(errorOr err ''Erro ao processar numero'', ''error'')]\<rparr>
         | Thrown \<Rightarrow>
             \<lparr>newState = s, sent = [request],
              toasts = [(''Erro ao conectar com o servidor'', ''error'')]\<rparr>))"

definition executeReset :: "document \<Rightarrow> api_reply \<Rightarrow> AppState \<Rightarrow> AppState outcome" where
  "executeReset doc reply s =
     (case reply of
        Reply success err \<Rightarrow>
          if success
          then \<lparr>newState = showScreen doc ''setupScreen''
                   (s\<lparr>bankroll := Finite 0, strategies := [], warmupNumbers := [],
                      initialized := False\<rparr>),
                sent = [Reset],
                toasts = [(''Sessao encerrada com sucesso'', ''success'')]\<rparr>
          else \<lparr>newState = s, sent = [Reset],
                toasts = [(errorOr err ''Erro ao resetar'', ''error'')]\<rparr>
      | Thrown \<Rightarrow>
          \<lparr>newState = s, sent = [Reset],
           toasts = [(''Erro ao conectar com o servidor'', ''error'')]\<rparr>)"

text \<open>A session on the warmup screen: any sequence of the three warmup handlers.\<close>

datatype warmup_call = AddWarmupNumber string | RemoveWarmupNumber int | ClearWarmup

fun warmup_step :: "AppState \<Rightarrow> warmup_call \<Rightarrow> AppState" where
  "warmup_step s (AddWarmupNumber inputValue) = newState (addWarmupNumber inputValue s)"
| "warmup_step s (RemoveWarmupNumber index) = removeWarmupNumber index s"
| "warmup_step s ClearWarmup = clearWarmup s"

definition warmup_run :: "warmup_call list \<Rightarrow> AppState \<Rightarrow> AppState" where
  "warmup_run calls s = foldl warmup_step s calls"

section \<open>The handlers of \<open>static/js/app.js\<close>\<close>

text \<open>
  The same handlers on \<open>state\<close>. Nothing in \<open>app.js\<close> guards an element lookup and
  \<open>showScreen\<close> writes to the page only. The accented letters of the messages are the
  code units \<open>0xE1\<close>, \<open>0xE3\<close>, \<open>0xE7\<close>, \<open>0xE9\<close> and \<open>0xFA\<close>.
\<close>

definition app_js_goToWarmup ::
  "string \<Rightarrow> (string \<times> bool) list \<Rightarrow> api_reply \<Rightarrow> state \<Rightarrow> state outcome" where
  "app_js_goToWarmup inputValue checkboxes reply s =
     (let bankrollValue = parseFloat inputValue in
      if js_not bankrollValue \<or> js_le_zero bankrollValue
      then \<lparr>newState = s, sent = [],
            toasts = [(''Por favor, insira uma banca v'' @ [CHR 0xE1] @ ''lida'', ''error'')]\<rparr>
      else let obj = collectStrategies checkboxes in
        if \<not> hasActiveStrategy obj
        then \<lparr>newState = s, sent = [],
              toasts = [(''Selecione pelo menos uma estrat'' @ [CHR 0xE9] @ ''gia'', ''error'')]\<rparr>
        else let s1 = s\<lparr>bankroll := bankrollValue, strategies := obj\<rparr>;
                 request = Initialize bankrollValue obj in
          (case reply of
             Reply success err \<Rightarrow>
               if success
               then \<lparr>newState = s1, sent = [request],
                     toasts = [(''Configura'' @ [CHR 0xE7, CHR 0xE3] @ ''o salva com sucesso!'',
                                ''success'')]\<rparr>
               else \<lparr>newState = s1, sent = [request],
                     toasts = [(errorOr err ''Erro ao inicializar'', ''error'')]\<rparr>
           | Thrown \<Rightarrow>
               \<lparr>newState = s1, sent = [request],
                toasts = [(''Erro ao conectar com o servidor'', ''error'')]\<rparr>))"

definition app_js_addWarmupNumber :: "string \<Rightarrow> state \<Rightarrow> state outcome" where
  "app_js_addWarmupNumber inputValue s =
     (let num = trim inputValue in
      if num = [] then \<lparr>newState = s, sent = [], toasts = []\<rparr>
      else if app_js_numberRejected num
      then \<lparr>newState = s, sent = [],
            toasts = [(''N'' @ [CHR 0xFA] @ ''mero inv'' @ [CHR 0xE1] @ ''lido! Use 0-36'', ''error'')]\<rparr>
      else if length (warmupNumbers s) \<ge> 12
      then \<lparr>newState = s, sent = [],
            toasts = [(''M'' @ [CHR 0xE1] @ ''ximo de 12 n'' @ [CHR 0xFA] @ ''meros atingido'',
                       ''error'')]\<rparr>
      else let s1 = s\<lparr>warmupNumbers := warmupNumbers s @ [num]\<rparr> in
        \<lparr>newState = s1, sent = [],
         toasts = (if length (warmupNumbers s1) = 12
                   then [(''12 n'' @ [CHR 0xFA] @ ''meros inseridos! Pronto para come''
                            @ [CHR 0xE7] @ ''ar'', ''success'')]
                   else [])\<rparr>)"

definition app_js_startGame :: "api_reply \<Rightarrow> state \<Rightarrow> state outcome" where
  "app_js_startGame reply s =
     (if length (warmupNumbers s) \<noteq> 12
      then \<lparr>newState = s, sent = [],
            toasts = [(''Insira exatamente 12 n'' @ [CHR 0xFA] @ ''meros'', ''error'')]\<rparr>
      else let request = Warmup (warmupNumbers s) in
        (case reply of
           Reply success err \<Rightarrow>
             if success
             then \<lparr>newState = s\<lparr>initialized := True\<rparr>, sent = [request, Stats],
                   toasts = [(''Sistema iniciado com sucesso!'', ''success'')]\<rparr>
             else \<lparr>newState = s, sent = [request],
                   toasts = [(errorOr err ''Erro ao aquecer sistema'', ''error'')]\<rparr>
         | Thrown \<Rightarrow>
             \<lparr>newState = s, sent = [request],
              toasts = [(''Erro ao conectar com o servidor'', ''error'')]\<rparr>))"

definition app_js_processSpin :: "string \<Rightarrow> api_reply \<Rightarrow> state \<Rightarrow> state outcome" where
  "app_js_processSpin inputValue reply s =
     (let num = trim inputValue in
      if num = [] then \<lparr>newState = s, sent = [], toasts = []\<rparr>
      else if app_js_numberRejected num
      then \<lparr>newState = s, sent = [],
            toasts = [(''N'' @ [CHR 0xFA] @ ''mero inv'' @ [CHR 0xE1] @ ''lido! Use 0-36'', ''error'')]\<rparr>
      else let request = Spin num in
        (case reply of
           Reply success err \<Rightarrow>
             if success then \<lparr>newState = s, sent = [request], toasts = []\<rparr>
             else \<lparr>newState = s, sent = [request],
                   toasts = [(errorOr err (''Erro ao processar n'' @ [CHR 0xFA] @ ''mero''),
                              ''error'')]\<rparr>
         | Thrown \<Rightarrow>
             \<lparr>newState = s, sent = [request],
              toasts = [(''Erro ao conectar com o servidor'', ''error'')]\<rparr>))"

section \<open>The history display\<close>

text \<open>
  \<open>updateHistory(history)\<close> is given a reference to the array that the server reply holds,
  and \<open>reverse()\<close> works in place, so arrays live in a heap: a list of arrays, a reference
  being an index into it. \<open>slice\<close> allocates a new array at the end of the heap;
  \<open>reverse\<close> overwrites the array it is called on and returns the same reference.
\<close>

type_synonym heap = "string list list"

definition Array_slice :: "int \<Rightarrow> nat \<Rightarrow> heap \<Rightarrow> nat \<times> heap" where
  "Array_slice start r h =
     (let xs = h ! r;
          len = int (length xs);
          k = (if start < 0 then max (len + start) 0 else min start len)
      in (length h, h @ [drop (nat k) xs]))"

definition Array_reverse :: "nat \<Rightarrow> heap \<Rightarrow> nat \<times> heap" where
  "Array_reverse r h = (r, h[r := rev (h ! r)])"

text \<open>
  What ends up in \<open>historyContent.innerHTML\<close>: the placeholder paragraph, or one \<open>div\<close> per
  number, each with its colour class and its text.
\<close>

datatype history_view = NoHistory | HistoryNumbers "(string \<times> string) list"

text \<open>
  \<^verbatim>\<open>
  function updateHistory(history) {
      const container = document.getElementById('historyContent');
      if (!history || history.length === 0) {
          container.innerHTML = '<p class="no-history">Nenhum historico ainda</p>';
          return;
      }
      // Mostra os ultimos 20, mais recente primeiro
      const recent = history.slice(-20).reverse();
      container.innerHTML = recent.map(num => {
          const color = getNumberColor(num);
          return `<div class="history-number ${color}">${num}</div>`;
      }).join('');
  }
  \<close>
  The argument is \<open>None\<close> for a missing history (\<open>null\<close> or \<open>undefined\<close>). The version in
  \<open>app.js\<close> differs in the names of its variables and in the \<open>getNumberColor\<close> it calls.
\<close>

definition updateHistory_with ::
  "(string \<Rightarrow> string) \<Rightarrow> nat option \<Rightarrow> heap \<Rightarrow> history_view \<times> heap" where
  "updateHistory_with color history h =
     (case history of
        None \<Rightarrow> (NoHistory, h)
      | Some r \<Rightarrow>
          if length (h ! r) = 0 then (NoHistory, h)
          else let (sliced, h1) = Array_slice (- 20) r h;
                   (recent, h2) = Array_reverse sliced h1
               in (HistoryNumbers (map (\<lambda>num. (color num, num)) (h2 ! recent)), h2))"

definition updateHistory :: "nat option \<Rightarrow> heap \<Rightarrow> history_view \<times> heap" where
  "updateHistory = updateHistory_with getNumberColor"

definition app_js_updateHistory :: "nat option \<Rightarrow> heap \<Rightarrow> history_view \<times> heap" where
  "app_js_updateHistory = updateHistory_with app_js_getNumberColor"

text \<open>The numbers on display, first to last.\<close>

definition shownNumbers :: "history_view \<Rightarrow> string list" where
  "shownNumbers v = (case v of NoHistory \<Rightarrow> [] | HistoryNumbers items \<Rightarrow> map snd items)"

section \<open>Notions used in the statements\<close>

text \<open>
  A reply that rejects the call: \<open>data.success\<close> is false, or the request failed. The
  invariant of the warmup list: at most 12 numbers, each accepted by
  \<open>isValidRouletteNumber\<close>.
\<close>

definition replyIsError :: "api_reply \<Rightarrow> bool" where
  "replyIsError reply = (case reply of Reply success err \<Rightarrow> \<not> success | Thrown \<Rightarrow> True)"

definition warmup_inv :: "AppState \<Rightarrow> bool" where
  "warmup_inv s =
     (length (warmupNumbers s) \<le> 12 \<and> list_all isValidRouletteNumber (warmupNumbers s))"

section \<open>Decimal tokens and \<open>parseInt\<close>\<close>

lemma decimal_digit_facts:
  assumes "isDecimalDigit c"
  shows "\<not> isWhiteSpace c" "c \<noteq> CHR ''-''" "c \<noteq> CHR ''+''" "c \<noteq> CHR ''x''" "c \<noteq> CHR ''X''"
    "isRadixDigit 10 c"
  using assms by (auto simp: isDecimalDigit_def isWhiteSpace_def isRadixDigit_def digitValue_def)

lemma takeWhile_decimal: "list_all isDecimalDigit cs \<Longrightarrow> takeWhile (isRadixDigit 10) cs = cs"
  by (induction cs) (simp_all add: decimal_digit_facts)

lemma parseInt_decimal:
  assumes "tok \<noteq> []" and "list_all isDecimalDigit tok"
  shows "parseInt tok = Some (int (mathInt 10 tok))"
proof -
  from assms obtain c cs where tok: "tok = c # cs" and c: "isDecimalDigit c" and cs: "list_all isDecimalDigit cs"
    by (cases tok) auto
  have ws: "dropWhile isWhiteSpace tok = tok"
    using decimal_digit_facts(1)[OF c] by (simp add: tok)
  have sg: "hd tok \<noteq> CHR ''-''" "hd tok \<noteq> CHR ''+''"
    using decimal_digit_facts(2,3)[OF c] by (simp_all add: tok)
  have nohex: "take 2 tok \<noteq> ''0x''" "take 2 tok \<noteq> ''0X''"
    using cs decimal_digit_facts(4,5) by (cases cs; auto simp: tok)+
  have tw: "takeWhile (isRadixDigit 10) tok = tok"
    using assms(2) by (rule takeWhile_decimal)
  show ?thesis
    using assms(1) by (simp add: parseInt_def Let_def ws sg nohex tw)
qed

lemma digitChar_decimal: "d < 10 \<Longrightarrow> isDecimalDigit (digitChar d) \<and> digitOf (digitChar d) = d"
proof -
  assume "d < 10"
  then have "d \<in> {0,1,2,3,4,5,6,7,8,9}" by auto
  then show ?thesis
    by (auto simp: digitChar_def isDecimalDigit_def digitOf_def digitValue_def)
qed

lemma token_of_nat_digits: "list_all isDecimalDigit (token_of_nat n) \<and> token_of_nat n \<noteq> []"
proof (induction n rule: token_of_nat.induct)
  case (1 n)
  show ?case
  proof (cases "n < 10")
    case True
    then show ?thesis by (simp add: token_of_nat.simps[of n] digitChar_decimal)
  next
    case False
    then show ?thesis using 1 by (simp add: token_of_nat.simps[of n] digitChar_decimal)
  qed
qed

lemma mathInt_snoc: "mathInt R (Z @ [c]) = mathInt R Z * R + digitOf c"
  by (simp add: mathInt_def)

lemma mathInt_token_of_nat: "mathInt 10 (token_of_nat n) = n"
proof (induction n rule: token_of_nat.induct)
  case (1 n)
  show ?case
  proof (cases "n < 10")
    case True
    then show ?thesis by (simp add: token_of_nat.simps[of n] digitChar_decimal mathInt_def)
  next
    case False
    then have "mathInt 10 (token_of_nat n) = mathInt 10 (token_of_nat (n div 10)) * 10 + n mod 10"
      by (simp add: token_of_nat.simps[of n] mathInt_snoc digitChar_decimal)
    with 1 False show ?thesis by simp
  qed
qed

lemma parseInt_token_of_nat: "parseInt (token_of_nat n) = Some (int n)"
  using parseInt_decimal[of "token_of_nat n"] token_of_nat_digits[of n]
  by (simp add: mathInt_token_of_nat)

lemma token_of_nat_not_00: "token_of_nat n \<noteq> ''00''"
proof
  assume a: "token_of_nat n = ''00''"
  have "mathInt 10 (token_of_nat n) = n" by (rule mathInt_token_of_nat)
  with a have "n = 0" by (simp add: mathInt_def digitOf_def digitValue_def)
  with a show False by (simp add: token_of_nat.simps[of 0] digitChar_def)
qed

lemma tokens_0_36: "map token_of_nat [0..<37] =
  [''0'', ''1'', ''2'', ''3'', ''4''] @ [''5'', ''6'', ''7'', ''8'', ''9''] @
  [''10'', ''11'', ''12'', ''13'', ''14'', ''15'', ''16'', ''17'', ''18'', ''19''] @
  [''20'', ''21'', ''22'', ''23'', ''24'', ''25'', ''26'', ''27'', ''28'', ''29''] @
  [''30'', ''31'', ''32'', ''33'', ''34'', ''35'', ''36'']"
  by code_simp

lemma token_of_nat_is_0: "token_of_nat n = ''0'' \<longleftrightarrow> n = 0"
proof
  assume a: "token_of_nat n = ''0''"
  have "mathInt 10 (token_of_nat n) = n" by (rule mathInt_token_of_nat)
  with a show "n = 0" by (simp add: mathInt_def digitOf_def digitValue_def)
next
  assume "n = 0"
  then show "token_of_nat n = ''0''" by (simp add: token_of_nat.simps[of 0] digitChar_def)
qed

lemma dropWhile_ws_decimal: "list_all isDecimalDigit tok \<Longrightarrow> dropWhile isWhiteSpace tok = tok"
  by (cases tok) (simp_all add: decimal_digit_facts)

lemma trim_decimal:
  assumes "list_all isDecimalDigit tok"
  shows "trim tok = tok"
proof -
  from assms have "list_all isDecimalDigit (rev tok)" by (simp add: list_all_iff)
  then have "dropWhile isWhiteSpace (rev tok) = rev tok" by (rule dropWhile_ws_decimal)
  then show ?thesis using dropWhile_ws_decimal[OF assms] by (simp add: trim_def)
qed

lemma valid_decimal:
  assumes "tok \<noteq> []" and "list_all isDecimalDigit tok"
  shows "isValidRouletteNumber tok \<longleftrightarrow> mathInt 10 tok \<le> 36"
proof (cases "tok = ''00''")
  case True
  then show ?thesis by (simp add: isValidRouletteNumber_def mathInt_def digitOf_def digitValue_def)
next
  case False
  then show ?thesis by (simp add: isValidRouletteNumber_def parseInt_decimal[OF assms])
qed

lemma app_js_rejected_decimal:
  assumes "tok \<noteq> []" and "list_all isDecimalDigit tok"
  shows "app_js_numberRejected tok \<longleftrightarrow> \<not> mathInt 10 tok \<le> 36"
  by (auto simp add: app_js_numberRejected_def parseInt_decimal[OF assms])

lemma parseInt_00: "parseInt ''00'' = Some 0"
  by (simp add: parseInt_def isWhiteSpace_def isRadixDigit_def digitValue_def mathInt_def digitOf_def)

lemma validations_agree: "isValidRouletteNumber tok \<longleftrightarrow> \<not> app_js_numberRejected tok"
  by (cases "tok = ''00''")
     (auto simp: isValidRouletteNumber_def app_js_numberRejected_def parseInt_00 split: option.splits)

lemma valid_token_of_nat: "isValidRouletteNumber (token_of_nat n) \<longleftrightarrow> n \<le> 36"
  using valid_decimal[of "token_of_nat n"] token_of_nat_digits[of n]
  by (simp add: mathInt_token_of_nat)

lemma parseInt_37: "parseInt ''37'' = Some 37"
  by (simp add: parseInt_def isWhiteSpace_def isRadixDigit_def digitValue_def mathInt_def digitOf_def)

lemma parseInt_minus_1: "parseInt ''-1'' = Some (- 1)"
  by (simp add: parseInt_def isWhiteSpace_def isRadixDigit_def digitValue_def mathInt_def digitOf_def)

lemma parseInt_abc: "parseInt ''abc'' = None"
  by (simp add: parseInt_def isWhiteSpace_def isRadixDigit_def digitValue_def mathInt_def digitOf_def)

lemma trim_fixed: "trim ''37'' = ''37''" "trim ''-1'' = ''-1''" "trim ''abc'' = ''abc''"
  by (simp_all add: trim_def isWhiteSpace_def)

lemma invalid_fixed:
  "\<not> isValidRouletteNumber ''37''" "\<not> isValidRouletteNumber ''-1''" "\<not> isValidRouletteNumber ''abc''"
  by (simp_all add: isValidRouletteNumber_def parseInt_37 parseInt_minus_1 parseInt_abc)

lemma processSpin_sent:
  "sent (processSpin v reply s) = (if trim v \<noteq> [] \<and> isValidRouletteNumber (trim v) then [Spin (trim v)] else [])"
  by (simp add: processSpin_def Let_def split: api_reply.splits)

lemma app_js_processSpin_sent:
  "sent (app_js_processSpin v reply s) =
     (if trim v \<noteq> [] \<and> \<not> app_js_numberRejected (trim v) then [Spin (trim v)] else [])"
  by (simp add: app_js_processSpin_def Let_def split: api_reply.splits)

lemma addWarmupNumber_state:
  "warmupNumbers (newState (addWarmupNumber v s)) =
     (if trim v \<noteq> [] \<and> isValidRouletteNumber (trim v) \<and> length (warmupNumbers s) < 12
      then warmupNumbers s @ [trim v] else warmupNumbers s)"
  by (simp add: addWarmupNumber_def Let_def)

lemma app_js_addWarmupNumber_state:
  "warmupNumbers (newState (app_js_addWarmupNumber v s)) =
     (if trim v \<noteq> [] \<and> \<not> app_js_numberRejected (trim v) \<and> length (warmupNumbers s) < 12
      then warmupNumbers s @ [trim v] else warmupNumbers s)"
  by (simp add: app_js_addWarmupNumber_def Let_def)

lemma canonicalTokens_cases:
  "tok \<in> set canonicalTokens \<longleftrightarrow> tok = ''00'' \<or> (\<exists>n\<le>36. tok = token_of_nat n)"
proof -
  have "set [0..<37] = {n. n \<le> (36::nat)}" by auto
  then show ?thesis by (auto simp: canonicalTokens_def)
qed

lemma getNumberColor_00: "getNumberColor ''00'' = ''green''"
  by (simp add: getNumberColor_def)

lemma app_js_getNumberColor_00: "app_js_getNumberColor ''00'' = ''green''"
  by (simp add: app_js_getNumberColor_def)

lemma getNumberColor_token_of_nat:
  "getNumberColor (token_of_nat n) =
     (if n = 0 then ''green'' else if int n \<in> set RED_NUMBERS then ''red'' else ''black'')"
  by (simp add: getNumberColor_def parseInt_token_of_nat token_of_nat_is_0 token_of_nat_not_00
      RED_NUMBERS_has_def)

lemma app_js_getNumberColor_token_of_nat:
  "app_js_getNumberColor (token_of_nat n) =
     (if n = 0 then ''green'' else if int n \<in> set RED_NUMBERS then ''red'' else ''black'')"
  by (simp add: app_js_getNumberColor_def parseInt_token_of_nat token_of_nat_is_0
      token_of_nat_not_00 RED_NUMBERS_def)

lemma addWarmupNumber_rejected:
  "\<not> isValidRouletteNumber (trim v) \<Longrightarrow> newState (addWarmupNumber v s) = s"
  by (simp add: addWarmupNumber_def Let_def)

lemma app_js_addWarmupNumber_rejected:
  "app_js_numberRejected (trim v) \<Longrightarrow> newState (app_js_addWarmupNumber v s) = s"
  by (simp add: app_js_addWarmupNumber_def Let_def)

text \<open>
  C2. The tokens "37", "-1" and "abc" are rejected by the validation of both front ends,
  on the warmup path (the state is left as it was) and on the spin path (nothing is sent);
  every token "0".."36" is accepted on both paths; and whether a spin token is accepted
  depends on the token alone, not on the state or on the reply of the server.
\<close>

theorem fixed_tokens_rejected_canonical_accepted:
  fixes s s' :: AppState and t :: state
  shows "(\<forall>tok \<in> {''37'', ''-1'', ''abc''}.
            \<not> isValidRouletteNumber tok \<and> app_js_numberRejected tok
          \<and> newState (addWarmupNumber tok s) = s \<and> sent (processSpin tok reply s) = []
          \<and> newState (app_js_addWarmupNumber tok t) = t \<and> sent (app_js_processSpin tok reply t) = [])
       \<and> (\<forall>n \<le> 36.
            isValidRouletteNumber (token_of_nat n) \<and> \<not> app_js_numberRejected (token_of_nat n)
          \<and> sent (processSpin (token_of_nat n) reply s) = [Spin (token_of_nat n)]
          \<and> sent (app_js_processSpin (token_of_nat n) reply t) = [Spin (token_of_nat n)]
          \<and> (length (warmupNumbers s) < 12 \<longrightarrow>
               warmupNumbers (newState (addWarmupNumber (token_of_nat n) s))
                 = warmupNumbers s @ [token_of_nat n])
          \<and> (length (warmupNumbers t) < 12 \<longrightarrow>
               warmupNumbers (newState (app_js_addWarmupNumber (token_of_nat n) t))
                 = warmupNumbers t @ [token_of_nat n]))
       \<and> (sent (processSpin v reply s) = [] \<longleftrightarrow> sent (processSpin v reply' s') = [])"
proof (intro conjI ballI allI impI)
  fix tok :: string
  assume "tok \<in> {''37'', ''-1'', ''abc''}"
  then have rej: "\<not> isValidRouletteNumber tok" and tr: "trim tok = tok"
    using invalid_fixed trim_fixed by auto
  show "\<not> isValidRouletteNumber tok" by (rule rej)
  show "app_js_numberRejected tok" using rej by (simp add: validations_agree)
  show "newState (addWarmupNumber tok s) = s" using rej by (simp add: addWarmupNumber_rejected tr)
  show "sent (processSpin tok reply s) = []" using rej by (simp add: processSpin_sent tr)
  show "newState (app_js_addWarmupNumber tok t) = t"
    using rej by (simp add: app_js_addWarmupNumber_rejected tr validations_agree)
  show "sent (app_js_processSpin tok reply t) = []"
    using rej by (simp add: app_js_processSpin_sent tr validations_agree)
next
  fix n :: nat
  assume n: "n \<le> 36"
  have tr: "trim (token_of_nat n) = token_of_nat n" and ne: "token_of_nat n \<noteq> []"
    using token_of_nat_digits[of n] by (simp_all add: trim_decimal)
  show ok: "isValidRouletteNumber (token_of_nat n)" using n by (simp add: valid_token_of_nat)
  then show ok': "\<not> app_js_numberRejected (token_of_nat n)" by (simp add: validations_agree)
  show "sent (processSpin (token_of_nat n) reply s) = [Spin (token_of_nat n)]"
    using ok ne by (simp add: processSpin_sent tr)
  show "sent (app_js_processSpin (token_of_nat n) reply t) = [Spin (token_of_nat n)]"
    using ok' ne by (simp add: app_js_processSpin_sent tr)
  show "warmupNumbers (newState (addWarmupNumber (token_of_nat n) s))
          = warmupNumbers s @ [token_of_nat n]" if "length (warmupNumbers s) < 12"
    using ok ne that by (simp add: addWarmupNumber_state tr)
  show "warmupNumbers (newState (app_js_addWarmupNumber (token_of_nat n) t))
          = warmupNumbers t @ [token_of_nat n]" if "length (warmupNumbers t) < 12"
    using ok' ne that by (simp add: app_js_addWarmupNumber_state tr)
next
  show "sent (processSpin v reply s) = [] \<longleftrightarrow> sent (processSpin v reply' s') = []"
    by (simp add: processSpin_sent)
qed

theorem fixed_tokens_rejected_canonical_accepted_witness:
  "''37'' \<in> {''37'', ''-1'', ''abc''} \<and> (17::nat) \<le> 36 \<and> token_of_nat 17 = ''17''
   \<and> \<not> isValidRouletteNumber ''37'' \<and> isValidRouletteNumber ''17''
   \<and> length (warmupNumbers AppState_initial) < 12
   \<and> warmupNumbers (newState (addWarmupNumber ''17'' AppState_initial)) = [''17'']
   \<and> sent (processSpin ''17'' Thrown AppState_initial) = [Spin ''17'']
   \<and> sent (processSpin ''37'' Thrown AppState_initial) = []"
proof -
  have t: "token_of_nat 17 = ''17''" by code_simp
  have i: "warmupNumbers AppState_initial = []" by (simp add: AppState_initial_def)
  note th = fixed_tokens_rejected_canonical_accepted
    [of AppState_initial Thrown state_initial "''17''" Thrown AppState_initial]
  from th have a: "\<forall>tok \<in> {''37'', ''-1'', ''abc''}.
            \<not> isValidRouletteNumber tok \<and> sent (processSpin tok Thrown AppState_initial) = []"
    by blast
  from th have b: "\<forall>n \<le> 36. isValidRouletteNumber (token_of_nat n)
      \<and> sent (processSpin (token_of_nat n) Thrown AppState_initial) = [Spin (token_of_nat n)]
      \<and> (length (warmupNumbers AppState_initial) < 12 \<longrightarrow>
               warmupNumbers (newState (addWarmupNumber (token_of_nat n) AppState_initial))
                 = warmupNumbers AppState_initial @ [token_of_nat n])"
    by blast
  from a have a': "\<not> isValidRouletteNumber ''37'' \<and> sent (processSpin ''37'' Thrown AppState_initial) = []"
    by simp
  from b have "isValidRouletteNumber (token_of_nat 17)
      \<and> sent (processSpin (token_of_nat 17) Thrown AppState_initial) = [Spin (token_of_nat 17)]
      \<and> (length (warmupNumbers AppState_initial) < 12 \<longrightarrow>
               warmupNumbers (newState (addWarmupNumber (token_of_nat 17) AppState_initial))
                 = warmupNumbers AppState_initial @ [token_of_nat 17])"
    by simp
  with a' show ?thesis by (simp add: t i)
qed

text \<open>
  C1 (as stated, refuted). The specification rejects "00" on a EUROPEAN table; the
  validation of the front end takes no roulette type and accepts "00", on the warmup path
  and on the spin path alike. It also accepts the malformed token "12abc", which no table
  of the specification accepts, because \<open>parseInt\<close> stops at the first character that is
  not a digit.
\<close>

theorem client_validation_accepts_00_and_12abc:
  "\<not> spec_resolver_accepts EUROPEAN ''00''
   \<and> isValidRouletteNumber ''00''
   \<and> \<not> app_js_numberRejected ''00''
   \<and> sent (processSpin ''00'' (Reply True None) AppState_initial) = [Spin ''00'']
   \<and> warmupNumbers (newState (addWarmupNumber ''00'' AppState_initial)) = [''00'']
   \<and> \<not> spec_resolver_accepts AMERICAN ''12abc''
   \<and> isValidRouletteNumber ''12abc''
   \<and> \<not> app_js_numberRejected ''12abc''"
proof -
  have "''12abc'' \<notin> set (map token_of_nat [0..<37])"
  proof
    assume "''12abc'' \<in> set (map token_of_nat [0..<37])"
    then have "\<exists>n. token_of_nat n = ''12abc''"
      unfolding set_map by (rule imageE) (rule exI, rule sym)
    then obtain n where "token_of_nat n = ''12abc''" ..
    with token_of_nat_digits[of n] have "list_all isDecimalDigit ''12abc''" by simp
    then show False by (simp add: isDecimalDigit_def)
  qed
  then have junk: "\<not> spec_resolver_accepts AMERICAN ''12abc''"
    unfolding spec_resolver_accepts_def by simp
  have "parseInt ''12abc'' = Some 12"
    by (simp add: parseInt_def isWhiteSpace_def isRadixDigit_def digitValue_def mathInt_def
        digitOf_def)
  then have lenient: "isValidRouletteNumber ''12abc''" "\<not> app_js_numberRejected ''12abc''"
    by (simp_all add: isValidRouletteNumber_def app_js_numberRejected_def)
  have tr: "trim ''00'' = ''00''" by (simp add: trim_def isWhiteSpace_def)
  have ok: "isValidRouletteNumber ''00''" by (simp add: isValidRouletteNumber_def)
  have "''00'' \<notin> set (map token_of_nat [0..<37])"
  proof
    assume "''00'' \<in> set (map token_of_nat [0..<37])"
    then have "\<exists>n. token_of_nat n = ''00''" unfolding set_map by (rule imageE) (rule exI, rule sym)
    then show False by (simp add: token_of_nat_not_00)
  qed
  then have "\<not> spec_resolver_accepts EUROPEAN ''00''"
    unfolding spec_resolver_accepts_def by blast
  moreover have "\<not> app_js_numberRejected ''00''"
    using ok by (simp add: validations_agree)
  moreover have "sent (processSpin ''00'' (Reply True None) AppState_initial) = [Spin ''00'']"
    using ok by (simp add: processSpin_sent tr)
  moreover have "warmupNumbers (newState (addWarmupNumber ''00'' AppState_initial)) = [''00'']"
    using ok by (simp add: addWarmupNumber_state tr AppState_initial_def)
  ultimately show ?thesis using ok junk lenient by simp
qed

lemma radix10_is_decimal: "isRadixDigit 10 c \<longleftrightarrow> isDecimalDigit c"
  by (auto simp: isRadixDigit_def isDecimalDigit_def digitValue_def Let_def split: option.splits)

lemma decimal_no_hex:
  assumes "list_all isDecimalDigit tok"
  shows "take 2 tok \<noteq> ''0x''" "take 2 tok \<noteq> ''0X''"
proof -
  have "take 2 tok \<noteq> ''0x'' \<and> take 2 tok \<noteq> ''0X''"
  proof (cases tok)
    case Nil
    then show ?thesis by simp
  next
    case (Cons c cs)
    with assms have "list_all isDecimalDigit cs" by simp
    then show ?thesis using decimal_digit_facts(4,5) by (cases cs; auto simp: Cons)
  qed
  then show "take 2 tok \<noteq> ''0x''" "take 2 tok \<noteq> ''0X''" by simp_all
qed

lemma parseInt_minus_decimal:
  assumes "ds \<noteq> []" and "list_all isDecimalDigit ds"
  shows "parseInt (CHR ''-'' # ds) = Some (- int (mathInt 10 ds))"
proof -
  define w where "w = CHR ''-'' # ds"
  have ws: "dropWhile isWhiteSpace w = w" by (simp add: w_def isWhiteSpace_def)
  have w: "w \<noteq> []" "hd w = CHR ''-''" "tl w = ds" by (simp_all add: w_def)
  have tw: "takeWhile (isRadixDigit 10) ds = ds"
    using assms(2) by (rule takeWhile_decimal)
  have "parseInt w = Some (- int (mathInt 10 ds))"
    using assms(1) by (simp add: parseInt_def Let_def ws w decimal_no_hex[OF assms(2)] tw)
  then show ?thesis by (simp only: w_def)
qed

lemma parseInt_no_numeral:
  assumes "w = [] \<or> (\<not> isWhiteSpace (hd w) \<and> hd w \<noteq> CHR ''+'' \<and> hd w \<noteq> CHR ''-''
      \<and> \<not> isDecimalDigit (hd w))"
  shows "parseInt w = None"
proof (cases w)
  case Nil
  then show ?thesis by (simp add: parseInt_def)
next
  case (Cons c cs)
  with assms have c: "\<not> isWhiteSpace c" "c \<noteq> CHR ''+''" "c \<noteq> CHR ''-''" "\<not> isDecimalDigit c"
    by simp_all
  have zero: "c \<noteq> CHR ''0''" using c(4) by (auto simp: isDecimalDigit_def)
  have ws: "dropWhile isWhiteSpace w = w" using c(1) by (simp add: Cons)
  have sg: "hd w \<noteq> CHR ''-''" "hd w \<noteq> CHR ''+''" using c(2,3) by (simp_all add: Cons)
  have nohex: "take 2 w \<noteq> ''0x''" "take 2 w \<noteq> ''0X''"
    using zero by (cases cs; simp add: Cons)+
  have tw: "takeWhile (isRadixDigit 10) w = []"
    using c(4) by (simp add: Cons radix10_is_decimal)
  show ?thesis by (simp add: parseInt_def Let_def ws sg nohex tw)
qed

lemma rejected_by_reading:
  assumes "parseInt tok = None \<or> (\<exists>k. parseInt tok = Some k \<and> (k < 0 \<or> 36 < k))"
  shows "\<not> isValidRouletteNumber tok" and "app_js_numberRejected tok"
proof -
  from assms have "tok \<noteq> ''00''" by (auto simp: parseInt_00)
  with assms show "\<not> isValidRouletteNumber tok"
    by (auto simp: isValidRouletteNumber_def)
  then show "app_js_numberRejected tok" by (simp add: validations_agree)
qed

text \<open>
  C1 (amended). A token made of decimal digits only is accepted by the validation of both
  front ends, on the warmup path and on the spin path, exactly when its decimal value is
  at most 36; no roulette type enters the check, so "00", of value 0, is accepted
  whatever the table. Every token from which \<open>parseInt\<close> reads no integer, or an integer
  below 0 or above 36, is rejected on both paths: so are a minus sign before a positive
  numeral, the empty token, and any token that starts with a character other than white
  space, a sign or a digit. Tokens with further characters after a numeral in range are
  left out of this statement.
\<close>

theorem token_validation_by_integer_reading:
  fixes s :: AppState and t :: state
  shows "(tok \<noteq> [] \<and> list_all isDecimalDigit tok \<longrightarrow>
            (isValidRouletteNumber tok \<longleftrightarrow> mathInt 10 tok \<le> 36)
          \<and> (\<not> app_js_numberRejected tok \<longleftrightarrow> mathInt 10 tok \<le> 36)
          \<and> (sent (processSpin tok reply s) = [Spin tok] \<longleftrightarrow> mathInt 10 tok \<le> 36)
          \<and> (sent (processSpin tok reply s) = [] \<longleftrightarrow> \<not> mathInt 10 tok \<le> 36)
          \<and> (sent (app_js_processSpin tok reply t) = [Spin tok] \<longleftrightarrow> mathInt 10 tok \<le> 36)
          \<and> (sent (app_js_processSpin tok reply t) = [] \<longleftrightarrow> \<not> mathInt 10 tok \<le> 36)
          \<and> (warmupNumbers (newState (addWarmupNumber tok s)) = warmupNumbers s @ [tok]
               \<longleftrightarrow> mathInt 10 tok \<le> 36 \<and> length (warmupNumbers s) < 12)
          \<and> (warmupNumbers (newState (app_js_addWarmupNumber tok t)) = warmupNumbers t @ [tok]
               \<longleftrightarrow> mathInt 10 tok \<le> 36 \<and> length (warmupNumbers t) < 12))
       \<and> (parseInt u = None \<or> (\<exists>k. parseInt u = Some k \<and> (k < 0 \<or> 36 < k)) \<longrightarrow>
            \<not> isValidRouletteNumber u \<and> app_js_numberRejected u)
       \<and> (parseInt (trim v) = None \<or> (\<exists>k. parseInt (trim v) = Some k \<and> (k < 0 \<or> 36 < k)) \<longrightarrow>
            sent (processSpin v reply s) = [] \<and> newState (addWarmupNumber v s) = s
          \<and> sent (app_js_processSpin v reply t) = [] \<and> newState (app_js_addWarmupNumber v t) = t)
       \<and> (ds \<noteq> [] \<and> list_all isDecimalDigit ds \<and> 0 < mathInt 10 ds \<longrightarrow>
            \<not> isValidRouletteNumber (CHR ''-'' # ds) \<and> app_js_numberRejected (CHR ''-'' # ds))
       \<and> (w = [] \<or> (\<not> isWhiteSpace (hd w) \<and> hd w \<noteq> CHR ''+'' \<and> hd w \<noteq> CHR ''-''
              \<and> \<not> isDecimalDigit (hd w)) \<longrightarrow>
            \<not> isValidRouletteNumber w \<and> app_js_numberRejected w)"
proof (intro conjI)
  show "tok \<noteq> [] \<and> list_all isDecimalDigit tok \<longrightarrow>
            (isValidRouletteNumber tok \<longleftrightarrow> mathInt 10 tok \<le> 36)
          \<and> (\<not> app_js_numberRejected tok \<longleftrightarrow> mathInt 10 tok \<le> 36)
          \<and> (sent (processSpin tok reply s) = [Spin tok] \<longleftrightarrow> mathInt 10 tok \<le> 36)
          \<and> (sent (processSpin tok reply s) = [] \<longleftrightarrow> \<not> mathInt 10 tok \<le> 36)
          \<and> (sent (app_js_processSpin tok reply t) = [Spin tok] \<longleftrightarrow> mathInt 10 tok \<le> 36)
          \<and> (sent (app_js_processSpin tok reply t) = [] \<longleftrightarrow> \<not> mathInt 10 tok \<le> 36)
          \<and> (warmupNumbers (newState (addWarmupNumber tok s)) = warmupNumbers s @ [tok]
               \<longleftrightarrow> mathInt 10 tok \<le> 36 \<and> length (warmupNumbers s) < 12)
          \<and> (warmupNumbers (newState (app_js_addWarmupNumber tok t)) = warmupNumbers t @ [tok]
               \<longleftrightarrow> mathInt 10 tok \<le> 36 \<and> length (warmupNumbers t) < 12)"
  proof
    assume a: "tok \<noteq> [] \<and> list_all isDecimalDigit tok"
    then have ne: "tok \<noteq> []" and dg: "list_all isDecimalDigit tok" by simp_all
    have tr: "trim tok = tok" using dg by (rule trim_decimal)
    have v: "isValidRouletteNumber tok \<longleftrightarrow> mathInt 10 tok \<le> 36"
      using ne dg by (rule valid_decimal)
    have r: "app_js_numberRejected tok \<longleftrightarrow> \<not> mathInt 10 tok \<le> 36"
      using ne dg by (rule app_js_rejected_decimal)
    show "(isValidRouletteNumber tok \<longleftrightarrow> mathInt 10 tok \<le> 36)
          \<and> (\<not> app_js_numberRejected tok \<longleftrightarrow> mathInt 10 tok \<le> 36)
          \<and> (sent (processSpin tok reply s) = [Spin tok] \<longleftrightarrow> mathInt 10 tok \<le> 36)
          \<and> (sent (processSpin tok reply s) = [] \<longleftrightarrow> \<not> mathInt 10 tok \<le> 36)
          \<and> (sent (app_js_processSpin tok reply t) = [Spin tok] \<longleftrightarrow> mathInt 10 tok \<le> 36)
          \<and> (sent (app_js_processSpin tok reply t) = [] \<longleftrightarrow> \<not> mathInt 10 tok \<le> 36)
          \<and> (warmupNumbers (newState (addWarmupNumber tok s)) = warmupNumbers s @ [tok]
               \<longleftrightarrow> mathInt 10 tok \<le> 36 \<and> length (warmupNumbers s) < 12)
          \<and> (warmupNumbers (newState (app_js_addWarmupNumber tok t)) = warmupNumbers t @ [tok]
               \<longleftrightarrow> mathInt 10 tok \<le> 36 \<and> length (warmupNumbers t) < 12)"
      using ne
      by (simp add: v r tr processSpin_sent app_js_processSpin_sent addWarmupNumber_state
          app_js_addWarmupNumber_state)
  qed
next
  show "parseInt u = None \<or> (\<exists>k. parseInt u = Some k \<and> (k < 0 \<or> 36 < k)) \<longrightarrow>
      \<not> isValidRouletteNumber u \<and> app_js_numberRejected u"
    using rejected_by_reading[of u] by blast
next
  show "parseInt (trim v) = None \<or> (\<exists>k. parseInt (trim v) = Some k \<and> (k < 0 \<or> 36 < k)) \<longrightarrow>
      sent (processSpin v reply s) = [] \<and> newState (addWarmupNumber v s) = s
      \<and> sent (app_js_processSpin v reply t) = [] \<and> newState (app_js_addWarmupNumber v t) = t"
  proof
    assume "parseInt (trim v) = None \<or> (\<exists>k. parseInt (trim v) = Some k \<and> (k < 0 \<or> 36 < k))"
    then have rej: "\<not> isValidRouletteNumber (trim v)" "app_js_numberRejected (trim v)"
      by (rule rejected_by_reading)+
    show "sent (processSpin v reply s) = [] \<and> newState (addWarmupNumber v s) = s
      \<and> sent (app_js_processSpin v reply t) = [] \<and> newState (app_js_addWarmupNumber v t) = t"
      using rej
      by (simp add: processSpin_sent app_js_processSpin_sent addWarmupNumber_rejected
          app_js_addWarmupNumber_rejected)
  qed
next
  show "ds \<noteq> [] \<and> list_all isDecimalDigit ds \<and> 0 < mathInt 10 ds \<longrightarrow>
      \<not> isValidRouletteNumber (CHR ''-'' # ds) \<and> app_js_numberRejected (CHR ''-'' # ds)"
  proof
    assume a: "ds \<noteq> [] \<and> list_all isDecimalDigit ds \<and> 0 < mathInt 10 ds"
    then have "parseInt (CHR ''-'' # ds) = Some (- int (mathInt 10 ds))"
      by (simp add: parseInt_minus_decimal)
    with a have "\<exists>k. parseInt (CHR ''-'' # ds) = Some k \<and> (k < 0 \<or> 36 < k)" by simp
    then show "\<not> isValidRouletteNumber (CHR ''-'' # ds) \<and> app_js_numberRejected (CHR ''-'' # ds)"
      using rejected_by_reading[of "CHR ''-'' # ds"] by blast
  qed
next
  show "w = [] \<or> (\<not> isWhiteSpace (hd w) \<and> hd w \<noteq> CHR ''+'' \<and> hd w \<noteq> CHR ''-''
      \<and> \<not> isDecimalDigit (hd w)) \<longrightarrow> \<not> isValidRouletteNumber w \<and> app_js_numberRejected w"
  proof
    assume "w = [] \<or> (\<not> isWhiteSpace (hd w) \<and> hd w \<noteq> CHR ''+'' \<and> hd w \<noteq> CHR ''-''
      \<and> \<not> isDecimalDigit (hd w))"
    then have "parseInt w = None" by (rule parseInt_no_numeral)
    then show "\<not> isValidRouletteNumber w \<and> app_js_numberRejected w"
      using rejected_by_reading[of w] by blast
  qed
qed

theorem token_validation_by_integer_reading_witness:
  "''00'' \<noteq> [] \<and> list_all isDecimalDigit ''00'' \<and> mathInt 10 ''00'' = 0
   \<and> isValidRouletteNumber ''00''
   \<and> sent (processSpin ''00'' Thrown AppState_initial) = [Spin ''00'']
   \<and> parseInt ''0x25'' = Some 37
   \<and> \<not> isValidRouletteNumber ''0x25'' \<and> app_js_numberRejected ''0x25''
   \<and> trim '' -5 '' = ''-5'' \<and> parseInt ''-5'' = Some (- 5)
   \<and> sent (processSpin '' -5 '' Thrown AppState_initial) = []
   \<and> newState (app_js_addWarmupNumber '' -5 '' state_initial) = state_initial
   \<and> ''7'' \<noteq> [] \<and> list_all isDecimalDigit ''7'' \<and> 0 < mathInt 10 ''7''
   \<and> \<not> isValidRouletteNumber ''-7'' \<and> app_js_numberRejected ''-7''
   \<and> hd ''abc'' = CHR ''a'' \<and> \<not> isWhiteSpace CHR ''a'' \<and> \<not> isDecimalDigit CHR ''a''
   \<and> \<not> isValidRouletteNumber ''abc'' \<and> app_js_numberRejected ''abc''"
proof -
  note th = token_validation_by_integer_reading
    [of "''00''" Thrown AppState_initial state_initial "''0x25''" "'' -5 ''" "''7''" "''abc''"]
  have d: "list_all isDecimalDigit ''00''" "list_all isDecimalDigit ''7''"
    by (simp_all add: isDecimalDigit_def)
  have m: "mathInt 10 ''00'' = 0" "mathInt 10 ''7'' = 7"
    by (simp_all add: mathInt_def digitOf_def digitValue_def)
  have p: "parseInt ''0x25'' = Some 37" "parseInt ''-5'' = Some (- 5)"
    by (simp_all add: parseInt_def isWhiteSpace_def isRadixDigit_def digitValue_def mathInt_def
        digitOf_def)
  have tr: "trim '' -5 '' = ''-5''" by (simp add: trim_def isWhiteSpace_def)
  have a: "hd ''abc'' = CHR ''a''" "\<not> isWhiteSpace CHR ''a''" "\<not> isDecimalDigit CHR ''a''"
    by (simp_all add: isWhiteSpace_def isDecimalDigit_def)
  from th d(1) m(1) have 1: "isValidRouletteNumber ''00''"
    "sent (processSpin ''00'' Thrown AppState_initial) = [Spin ''00'']" by simp_all
  from th p(1) have 2: "\<not> isValidRouletteNumber ''0x25''" "app_js_numberRejected ''0x25''"
    by simp_all
  from th p(2) tr have 3: "sent (processSpin '' -5 '' Thrown AppState_initial) = []"
    "newState (app_js_addWarmupNumber '' -5 '' state_initial) = state_initial" by simp_all
  from th d(2) m(2) have 4: "\<not> isValidRouletteNumber ''-7''" "app_js_numberRejected ''-7''"
    by simp_all
  from th a have 5: "\<not> isValidRouletteNumber ''abc''" "app_js_numberRejected ''abc''"
    by simp_all
  show ?thesis using d m p tr a 1 2 3 4 5 by simp
qed

text \<open>
  C6. On the number tokens "0".."36" and "00", the colour of the v4 front end is green
  exactly for "0" and "00", red exactly for the eighteen numbers 1, 3, 5, 7, 9, 12, 14,
  16, 18, 19, 21, 23, 25, 27, 30, 32, 34, 36, and black for every other number from 1 to
  36. The colour is a function of the token.
\<close>

theorem color_of_number_tokens:
  "(\<forall>n \<le> 36.
      (getNumberColor (token_of_nat n) = ''green'' \<longleftrightarrow> n = 0)
    \<and> (getNumberColor (token_of_nat n) = ''red'' \<longleftrightarrow>
         n \<in> {1, 3, 5, 7, 9, 12, 14, 16, 18, 19, 21, 23, 25, 27, 30, 32, 34, 36})
    \<and> (getNumberColor (token_of_nat n) = ''black'' \<longleftrightarrow>
         1 \<le> n \<and> n \<notin> {1, 3, 5, 7, 9, 12, 14, 16, 18, 19, 21, 23, 25, 27, 30, 32, 34, 36}))
   \<and> getNumberColor ''00'' = ''green''
   \<and> (\<forall>tok \<in> set canonicalTokens.
         getNumberColor tok = ''green'' \<longleftrightarrow> tok = ''0'' \<or> tok = ''00'')
   \<and> card {1, 3, 5, 7, 9, 12, 14, 16, 18, 19, 21, 23, 25, 27, 30, 32, 34, 36 :: nat} = 18"
proof (intro conjI allI impI ballI)
  fix n :: nat
  have red: "int n \<in> set RED_NUMBERS \<longleftrightarrow>
      n \<in> {1, 3, 5, 7, 9, 12, 14, 16, 18, 19, 21, 23, 25, 27, 30, 32, 34, 36}"
    by (auto simp: RED_NUMBERS_def)
  show "getNumberColor (token_of_nat n) = ''green'' \<longleftrightarrow> n = 0"
    by (simp add: getNumberColor_token_of_nat)
  show "getNumberColor (token_of_nat n) = ''red'' \<longleftrightarrow>
      n \<in> {1, 3, 5, 7, 9, 12, 14, 16, 18, 19, 21, 23, 25, 27, 30, 32, 34, 36}"
    unfolding red[symmetric] by (simp add: getNumberColor_token_of_nat RED_NUMBERS_def)
  show "getNumberColor (token_of_nat n) = ''black'' \<longleftrightarrow>
      1 \<le> n \<and> n \<notin> {1, 3, 5, 7, 9, 12, 14, 16, 18, 19, 21, 23, 25, 27, 30, 32, 34, 36}"
    unfolding red[symmetric] by (auto simp add: getNumberColor_token_of_nat)
next
  show "getNumberColor ''00'' = ''green''" by (rule getNumberColor_00)
next
  fix tok assume "tok \<in> set canonicalTokens"
  then consider "tok = ''00''" | n where "tok = token_of_nat n"
    unfolding canonicalTokens_cases by blast
  then show "getNumberColor tok = ''green'' \<longleftrightarrow> tok = ''0'' \<or> tok = ''00''"
  proof cases
    case 1
    then show ?thesis by (simp add: getNumberColor_00)
  next
    case 2
    then show ?thesis
      by (simp add: getNumberColor_token_of_nat token_of_nat_is_0 token_of_nat_not_00)
  qed
next
  show "card {1, 3, 5, 7, 9, 12, 14, 16, 18, 19, 21, 23, 25, 27, 30, 32, 34, 36 :: nat} = 18"
    by simp
qed

theorem color_of_number_tokens_witness:
  "(17::nat) \<le> 36 \<and> token_of_nat 17 = ''17'' \<and> getNumberColor ''17'' = ''black''
   \<and> (32::nat) \<le> 36 \<and> token_of_nat 32 = ''32'' \<and> getNumberColor ''32'' = ''red''
   \<and> (0::nat) \<le> 36 \<and> token_of_nat 0 = ''0'' \<and> getNumberColor ''0'' = ''green''
   \<and> ''00'' \<in> set canonicalTokens \<and> getNumberColor ''00'' = ''green''"
proof -
  have t: "token_of_nat 17 = ''17''" "token_of_nat 32 = ''32''" "token_of_nat 0 = ''0''"
    by code_simp+
  have c: "''00'' \<in> set canonicalTokens" by (simp add: canonicalTokens_def)
  from color_of_number_tokens have a: "\<forall>n \<le> 36.
      (getNumberColor (token_of_nat n) = ''green'' \<longleftrightarrow> n = 0)
    \<and> (getNumberColor (token_of_nat n) = ''red'' \<longleftrightarrow>
         n \<in> {1, 3, 5, 7, 9, 12, 14, 16, 18, 19, 21, 23, 25, 27, 30, 32, 34, 36})
    \<and> (getNumberColor (token_of_nat n) = ''black'' \<longleftrightarrow>
         1 \<le> n \<and> n \<notin> {1, 3, 5, 7, 9, 12, 14, 16, 18, 19, 21, 23, 25, 27, 30, 32, 34, 36})"
    and b: "\<forall>tok \<in> set canonicalTokens.
         getNumberColor tok = ''green'' \<longleftrightarrow> tok = ''0'' \<or> tok = ''00''"
    by blast+
  from a have "getNumberColor (token_of_nat 17) = ''black''"
    "getNumberColor (token_of_nat 32) = ''red''" "getNumberColor (token_of_nat 0) = ''green''"
    by simp_all
  moreover from b c have "getNumberColor ''00'' = ''green''" by blast
  ultimately show ?thesis using c by (simp add: t)
qed

text \<open>
  C10. The two implementations of \<open>getNumberColor\<close>, the v4 one and the one of
  \<open>static/js/app.js\<close>, give the same colour on each of the tokens "0".."36" and "00".
\<close>

theorem getNumberColor_versions_agree:
  "\<forall>tok \<in> set canonicalTokens. getNumberColor tok = app_js_getNumberColor tok"
proof
  fix tok assume "tok \<in> set canonicalTokens"
  then consider "tok = ''00''" | n where "tok = token_of_nat n"
    unfolding canonicalTokens_cases by blast
  then show "getNumberColor tok = app_js_getNumberColor tok"
  proof cases
    case 1
    then show ?thesis by (simp add: getNumberColor_00 app_js_getNumberColor_00)
  next
    case 2
    then show ?thesis
      by (simp only: getNumberColor_token_of_nat app_js_getNumberColor_token_of_nat)
  qed
qed

theorem getNumberColor_versions_agree_witness:
  "''23'' \<in> set canonicalTokens \<and> getNumberColor ''23'' = app_js_getNumberColor ''23''
   \<and> app_js_getNumberColor ''23'' = ''red''"
proof -
  have c: "''23'' \<in> set canonicalTokens" by (simp add: canonicalTokens_def tokens_0_36)
  have "parseInt ''23'' = Some 23"
    by (simp add: parseInt_def isWhiteSpace_def isRadixDigit_def digitValue_def mathInt_def
        digitOf_def)
  then have r: "app_js_getNumberColor ''23'' = ''red''"
    by (simp add: app_js_getNumberColor_def)
  from getNumberColor_versions_agree c
  have "getNumberColor ''23'' = app_js_getNumberColor ''23''" by blast
  with c r show ?thesis by simp
qed

section \<open>The warmup list\<close>

lemma take_drop_length: "a \<le> b \<Longrightarrow> length (take a xs @ drop b xs) \<le> length xs"
  by simp

lemma splice1_length: "length (splice1 index xs) \<le> length xs"
proof -
  define len where "len = int (length xs)"
  define actualStart where
    "actualStart = (if index < 0 then max (len + index) 0 else min index len)"
  define actualDeleteCount where "actualDeleteCount = min (max 1 0) (len - actualStart)"
  have "0 \<le> len" by (simp add: len_def)
  then have "0 \<le> actualStart" "actualStart \<le> len" by (auto simp: actualStart_def)
  then have "0 \<le> actualDeleteCount" by (simp add: actualDeleteCount_def)
  then have "nat actualStart \<le> nat (actualStart + actualDeleteCount)" by simp
  then have "length (take (nat actualStart) xs @ drop (nat (actualStart + actualDeleteCount)) xs)
      \<le> length xs" by (rule take_drop_length)
  then show ?thesis
    unfolding splice1_def Let_def actualDeleteCount_def actualStart_def len_def .
qed

lemma splice1_set: "set (splice1 index xs) \<subseteq> set xs"
proof -
  have "set (take a xs) \<subseteq> set xs" "set (drop b xs) \<subseteq> set xs" for a b
    by (simp_all add: set_take_subset set_drop_subset)
  then show ?thesis by (simp add: splice1_def Let_def)
qed

lemma warmup_inv_initial: "warmup_inv AppState_initial"
  by (simp add: warmup_inv_def AppState_initial_def)

lemma warmup_inv_add: "warmup_inv s \<Longrightarrow> warmup_inv (newState (addWarmupNumber v s))"
  by (simp add: warmup_inv_def addWarmupNumber_def Let_def)

lemma warmup_inv_clear: "warmup_inv (clearWarmup s)"
  by (simp add: warmup_inv_def clearWarmup_def)

lemma warmup_inv_remove:
  assumes "warmup_inv s"
  shows "warmup_inv (removeWarmupNumber index s)"
proof -
  have "length (splice1 index (warmupNumbers s)) \<le> 12"
    using assms splice1_length[of index "warmupNumbers s"] by (simp add: warmup_inv_def)
  moreover have "list_all isValidRouletteNumber (splice1 index (warmupNumbers s))"
    using assms splice1_set[of index "warmupNumbers s"] by (auto simp: warmup_inv_def list_all_iff)
  ultimately show ?thesis by (simp add: warmup_inv_def removeWarmupNumber_def)
qed

lemma warmup_inv_step: "warmup_inv s \<Longrightarrow> warmup_inv (warmup_step s c)"
  by (cases c) (simp_all add: warmup_inv_add warmup_inv_remove warmup_inv_clear)

lemma warmup_inv_run: "warmup_inv s \<Longrightarrow> warmup_inv (warmup_run calls s)"
  unfolding warmup_run_def
  by (induction calls arbitrary: s) (simp_all add: warmup_inv_step)

text \<open>
  C9. After any sequence of \<open>addWarmupNumber\<close>, \<open>removeWarmupNumber\<close> and \<open>clearWarmup\<close>
  calls from the initial state, \<open>AppState.warmupNumbers\<close> has at most 12 elements and each
  of them is a token accepted by \<open>isValidRouletteNumber\<close>.
\<close>

theorem warmup_list_invariant:
  "length (warmupNumbers (warmup_run calls AppState_initial)) \<le> 12
   \<and> (\<forall>num \<in> set (warmupNumbers (warmup_run calls AppState_initial)).
         isValidRouletteNumber num)"
  using warmup_inv_run[OF warmup_inv_initial, of calls]
  by (simp add: warmup_inv_def list_all_iff)

theorem warmup_list_invariant_witness:
  "warmupNumbers (warmup_run
      [AddWarmupNumber ''7'', AddWarmupNumber ''abc'', AddWarmupNumber '' 00 '',
       RemoveWarmupNumber 0, AddWarmupNumber ''36''] AppState_initial) = [''00'', ''36'']
   \<and> ''36'' \<in> set [''00'', ''36''] \<and> isValidRouletteNumber ''36''"
proof -
  have p: "parseInt ''7'' = Some 7" "parseInt ''abc'' = None" "parseInt ''36'' = Some 36"
    by (simp_all add: parseInt_def isWhiteSpace_def isRadixDigit_def digitValue_def mathInt_def
        digitOf_def)
  have t: "trim ''7'' = ''7''" "trim ''abc'' = ''abc''" "trim '' 00 '' = ''00''"
    "trim ''36'' = ''36''"
    by (simp_all add: trim_def isWhiteSpace_def)
  have v: "isValidRouletteNumber ''7''" "\<not> isValidRouletteNumber ''abc''"
    "isValidRouletteNumber ''00''" "isValidRouletteNumber ''36''"
    by (simp_all add: isValidRouletteNumber_def p)
  have r: "warmupNumbers (warmup_run
      [AddWarmupNumber ''7'', AddWarmupNumber ''abc'', AddWarmupNumber '' 00 '',
       RemoveWarmupNumber 0, AddWarmupNumber ''36''] AppState_initial) = [''00'', ''36'']"
    by (simp add: warmup_run_def addWarmupNumber_def removeWarmupNumber_def splice1_def
        AppState_initial_def Let_def t v)
  show ?thesis
    using warmup_list_invariant[of "[AddWarmupNumber ''7'', AddWarmupNumber ''abc'',
      AddWarmupNumber '' 00 '', RemoveWarmupNumber 0, AddWarmupNumber ''36'']"]
    by (simp add: r)
qed

text \<open>
  C3. \<open>startGame\<close> sends the warmup request exactly when the list holds 12 numbers, and
  the request then carries those 12; with any other length it shows an error and sends
  nothing, leaving the state as it was. \<open>addWarmupNumber\<close> leaves a list of 12 (or more)
  as it is.
\<close>

theorem warmup_needs_exactly_12:
  "(sent (startGame doc reply s) \<noteq> [] \<longleftrightarrow> length (warmupNumbers s) = 12)
   \<and> (length (warmupNumbers s) \<noteq> 12 \<longrightarrow>
        startGame doc reply s =
          \<lparr>newState = s, sent = [], toasts = [(''Insira exatamente 12 numeros'', ''error'')]\<rparr>)
   \<and> (\<forall>nums. Warmup nums \<in> set (sent (startGame doc reply s)) \<longrightarrow>
        nums = warmupNumbers s \<and> length nums = 12)
   \<and> (length (warmupNumbers s) = 12 \<longrightarrow>
        hd (sent (startGame doc reply s)) = Warmup (warmupNumbers s))
   \<and> (length (warmupNumbers s) \<ge> 12 \<longrightarrow>
        newState (addWarmupNumber v s) = s \<and> sent (addWarmupNumber v s) = [])"
  by (auto simp: startGame_def addWarmupNumber_def Let_def split: api_reply.splits)

theorem warmup_needs_exactly_12_witness:
  "length (warmupNumbers (AppState_initial\<lparr>warmupNumbers := replicate 12 ''7''\<rparr>)) = 12
   \<and> sent (startGame [] (Reply False None) (AppState_initial\<lparr>warmupNumbers := replicate 12 ''7''\<rparr>))
       = [Warmup (replicate 12 ''7'')]
   \<and> newState (addWarmupNumber ''8'' (AppState_initial\<lparr>warmupNumbers := replicate 12 ''7''\<rparr>))
       = AppState_initial\<lparr>warmupNumbers := replicate 12 ''7''\<rparr>
   \<and> length (warmupNumbers (AppState_initial\<lparr>warmupNumbers := replicate 11 ''7''\<rparr>)) \<noteq> 12
   \<and> sent (startGame [] (Reply True None) (AppState_initial\<lparr>warmupNumbers := replicate 11 ''7''\<rparr>))
       = []
   \<and> Warmup (replicate 12 ''7'')
       \<in> set (sent (startGame [] (Reply True None)
                 (AppState_initial\<lparr>warmupNumbers := replicate 12 ''7''\<rparr>)))
   \<and> length (replicate 12 ''7'') = 12"
proof -
  let ?s12 = "AppState_initial\<lparr>warmupNumbers := replicate 12 ''7''\<rparr>"
  let ?s11 = "AppState_initial\<lparr>warmupNumbers := replicate 11 ''7''\<rparr>"
  have l: "length (warmupNumbers ?s12) = 12" "length (warmupNumbers ?s11) = 11" by simp_all
  have a: "sent (startGame [] (Reply False None) ?s12) = [Warmup (replicate 12 ''7'')]"
    by (simp add: startGame_def)
  from warmup_needs_exactly_12[of "[]" "Reply False None" ?s12 "''8''"] l(1)
  have b: "newState (addWarmupNumber ''8'' ?s12) = ?s12" by simp
  from warmup_needs_exactly_12[of "[]" "Reply True None" ?s11 "''8''"] l(2)
  have c: "sent (startGame [] (Reply True None) ?s11) = []" by simp
  have d: "Warmup (replicate 12 ''7'') \<in> set (sent (startGame [] (Reply True None) ?s12))"
    by (simp add: startGame_def)
  from warmup_needs_exactly_12[of "[]" "Reply True None" ?s12 "''8''"] d
  have e: "length (replicate 12 ''7'') = 12" by blast
  show ?thesis using l a b c d e by simp
qed

section \<open>Setup, rejected calls and reset\<close>

lemma bankroll_check: "js_not b \<or> js_le_zero b \<longleftrightarrow> \<not> js_gt_zero b"
  by (cases b) (auto simp: js_not_def js_le_zero_def js_gt_zero_def)

lemma assignExisting_values: "snd ` set (assignExisting k v obj) \<subseteq> insert v (snd ` set obj)"
  by (induction obj) auto

lemma insertIndexKey_values: "snd ` set (insertIndexKey k v obj) = insert v (snd ` set obj)"
  by (induction obj) auto

lemma setProperty_values: "snd ` set (setProperty k v obj) \<subseteq> insert v (snd ` set obj)"
  using assignExisting_values[of k v obj]
  by (auto simp: setProperty_def insertIndexKey_values)

lemma collect_values:
  "snd ` set (foldl (\<lambda>obj c. setProperty (fst c) (snd c) obj) acc cbs)
     \<subseteq> snd ` set acc \<union> snd ` set cbs"
proof (induction cbs arbitrary: acc)
  case Nil
  show ?case by simp
next
  case (Cons c cbs)
  have "snd ` set (foldl (\<lambda>obj c. setProperty (fst c) (snd c) obj)
            (setProperty (fst c) (snd c) acc) cbs)
      \<subseteq> snd ` set (setProperty (fst c) (snd c) acc) \<union> snd ` set cbs"
    by (rule Cons.IH)
  also have "\<dots> \<subseteq> snd ` set acc \<union> snd ` set (c # cbs)"
    using setProperty_values[of "fst c" "snd c" acc] by auto
  finally show ?case by simp
qed

lemma active_strategy_checked:
  assumes "hasActiveStrategy (collectStrategies cbs)"
  shows "\<exists>c \<in> set cbs. snd c"
proof -
  from assms have "True \<in> snd ` set (collectStrategies cbs)"
    by (auto simp: hasActiveStrategy_def list_ex_iff)
  then have "True \<in> snd ` set cbs"
    using collect_values[of "[]" cbs] by (auto simp: collectStrategies_def)
  then show ?thesis by auto
qed

lemma goToWarmup_sent:
  "sent (goToWarmup doc b cbs reply s) =
     (if js_gt_zero (parseFloat b) \<and> hasActiveStrategy (collectStrategies cbs)
      then [Initialize (parseFloat b) (collectStrategies cbs)] else [])"
  by (simp add: goToWarmup_def bankroll_check Let_def split: api_reply.splits)

lemma app_js_goToWarmup_sent:
  "sent (app_js_goToWarmup b cbs reply t) =
     (if js_gt_zero (parseFloat b) \<and> hasActiveStrategy (collectStrategies cbs)
      then [Initialize (parseFloat b) (collectStrategies cbs)] else [])"
  by (simp add: app_js_goToWarmup_def bankroll_check Let_def split: api_reply.splits)

lemma goToWarmup_rejected_locally:
  "\<not> (js_gt_zero (parseFloat b) \<and> hasActiveStrategy (collectStrategies cbs)) \<Longrightarrow>
     newState (goToWarmup doc b cbs reply s) = s"
  by (auto simp add: goToWarmup_def bankroll_check Let_def)

lemma app_js_goToWarmup_rejected_locally:
  "\<not> (js_gt_zero (parseFloat b) \<and> hasActiveStrategy (collectStrategies cbs)) \<Longrightarrow>
     newState (app_js_goToWarmup b cbs reply t) = t"
  by (auto simp add: app_js_goToWarmup_def bankroll_check Let_def)

text \<open>
  What the bankroll check does decide, in both front ends: the initialize request is sent
  only when \<open>parseFloat\<close> reads a number greater than 0 from the bankroll field and some
  strategy checkbox is checked; otherwise nothing is sent and the state is left as it was.
\<close>

lemma initialize_request_condition:
  fixes s :: AppState and t :: state
  shows "(sent (goToWarmup doc b cbs reply s) \<noteq> [] \<longrightarrow>
            js_gt_zero (parseFloat b) \<and> (\<exists>c \<in> set cbs. snd c))
       \<and> (\<not> js_gt_zero (parseFloat b) \<or> (\<forall>c \<in> set cbs. \<not> snd c) \<longrightarrow>
            sent (goToWarmup doc b cbs reply s) = [] \<and> newState (goToWarmup doc b cbs reply s) = s)
       \<and> (sent (app_js_goToWarmup b cbs reply t) \<noteq> [] \<longrightarrow>
            js_gt_zero (parseFloat b) \<and> (\<exists>c \<in> set cbs. snd c))
       \<and> (\<not> js_gt_zero (parseFloat b) \<or> (\<forall>c \<in> set cbs. \<not> snd c) \<longrightarrow>
            sent (app_js_goToWarmup b cbs reply t) = []
          \<and> newState (app_js_goToWarmup b cbs reply t) = t)"
proof -
  have none: "\<not> hasActiveStrategy (collectStrategies cbs)" if "\<forall>c \<in> set cbs. \<not> snd c"
    using that active_strategy_checked[of cbs] by blast
  have rej: "\<not> (js_gt_zero (parseFloat b) \<and> hasActiveStrategy (collectStrategies cbs))"
    if "\<not> js_gt_zero (parseFloat b) \<or> (\<forall>c \<in> set cbs. \<not> snd c)"
    using that none by blast
  show ?thesis
  proof (intro conjI impI)
    assume "sent (goToWarmup doc b cbs reply s) \<noteq> []"
    then have h: "js_gt_zero (parseFloat b) \<and> hasActiveStrategy (collectStrategies cbs)"
      by (simp add: goToWarmup_sent split: if_splits)
    then show "js_gt_zero (parseFloat b)" "\<exists>c \<in> set cbs. snd c"
      by (simp_all add: active_strategy_checked)
  next
    assume "sent (app_js_goToWarmup b cbs reply t) \<noteq> []"
    then have h: "js_gt_zero (parseFloat b) \<and> hasActiveStrategy (collectStrategies cbs)"
      by (simp add: app_js_goToWarmup_sent split: if_splits)
    then show "js_gt_zero (parseFloat b)" "\<exists>c \<in> set cbs. snd c"
      by (simp_all add: active_strategy_checked)
  next
    assume a: "\<not> js_gt_zero (parseFloat b) \<or> (\<forall>c \<in> set cbs. \<not> snd c)"
    show "sent (goToWarmup doc b cbs reply s) = []" "newState (goToWarmup doc b cbs reply s) = s"
      "sent (app_js_goToWarmup b cbs reply t) = []" "newState (app_js_goToWarmup b cbs reply t) = t"
      using rej[OF a]
      by (simp_all add: goToWarmup_sent app_js_goToWarmup_sent goToWarmup_rejected_locally
          app_js_goToWarmup_rejected_locally)
  qed
qed

lemma parseFloat_samples:
  "parseFloat ''100abc'' = Finite 100" "parseFloat ''100'' = Finite 100"
  "parseFloat ''0'' = Finite 0" "parseFloat ''abc'' = NaN"
  by (simp_all add: parseFloat_def unsignedDecimal_def isWhiteSpace_def isDecimalDigit_def
      exponentPart_def pow10_def roundToDouble_def mathInt_def digitOf_def digitValue_def Let_def)

lemma collectStrategies_COR: "collectStrategies [(''COR'', True)] = [(''COR'', True)]"
  by (simp add: collectStrategies_def setProperty_def isArrayIndex_def isDecimalDigit_def)

lemma collectStrategies_key_order:
  "collectStrategies [(''COR'', True), (''10'', False), (''2'', True), (''COR'', False),
      (''__proto__'', True), (''01'', True)]
     = [(''2'', True), (''10'', False), (''COR'', False), (''01'', True)]"
  "hasActiveStrategy (collectStrategies [(''__proto__'', True)]) = False"
  by code_simp+

text \<open>
  C4 (the code departs from the claim). The bankroll text "100abc" is not a number, and
  the claim has it rejected with no request. \<open>parseFloat\<close> reads the leading numeral and
  ignores the rest, so both front ends take the bankroll to be 100, store it and send the
  initialize request, whatever the page, the reply and the state.
\<close>

theorem non_numeric_bankroll_is_submitted:
  fixes s :: AppState and t :: state
  shows "parseFloat ''100abc'' = Finite 100
       \<and> sent (goToWarmup doc ''100abc'' [(''COR'', True)] reply s)
           = [Initialize (Finite 100) [(''COR'', True)]]
       \<and> bankroll (newState (goToWarmup doc ''100abc'' [(''COR'', True)] reply s)) = Finite 100
       \<and> sent (app_js_goToWarmup ''100abc'' [(''COR'', True)] reply t)
           = [Initialize (Finite 100) [(''COR'', True)]]
       \<and> bankroll (newState (app_js_goToWarmup ''100abc'' [(''COR'', True)] reply t)) = Finite 100"
proof -
  have g: "js_gt_zero (Finite 100)" "\<not> js_not (Finite 100)" "\<not> js_le_zero (Finite 100)"
    by (simp_all add: js_gt_zero_def js_not_def js_le_zero_def)
  have h: "hasActiveStrategy [(''COR'', True)]" by (simp add: hasActiveStrategy_def)
  have "bankroll (newState (goToWarmup doc ''100abc'' [(''COR'', True)] reply s)) = Finite 100"
    by (simp add: goToWarmup_def parseFloat_samples collectStrategies_COR g h showScreen_def Let_def
        split: api_reply.splits)
  moreover
  have "bankroll (newState (app_js_goToWarmup ''100abc'' [(''COR'', True)] reply t)) = Finite 100"
    by (simp add: app_js_goToWarmup_def parseFloat_samples collectStrategies_COR g h Let_def
        split: api_reply.splits)
  ultimately show ?thesis
    by (simp add: goToWarmup_sent app_js_goToWarmup_sent parseFloat_samples collectStrategies_COR
        g h)
qed

text \<open>
  C5 (as stated, refuted). \<open>goToWarmup\<close> stores the bankroll and the strategies in the
  client state before it sends the request. When the server then rejects the call, or
  the request fails, the state is not what it was before the call.
\<close>

theorem rejected_initialize_changes_state:
  "replyIsError (Reply False (Some ''AlreadyInitialized''))
   \<and> sent (goToWarmup [] ''100'' [(''COR'', True)] (Reply False (Some ''AlreadyInitialized''))
        AppState_initial) = [Initialize (Finite 100) [(''COR'', True)]]
   \<and> toasts (goToWarmup [] ''100'' [(''COR'', True)] (Reply False (Some ''AlreadyInitialized''))
        AppState_initial) = [(''AlreadyInitialized'', ''error'')]
   \<and> bankroll AppState_initial = Finite 0
   \<and> bankroll (newState (goToWarmup [] ''100'' [(''COR'', True)]
        (Reply False (Some ''AlreadyInitialized'')) AppState_initial)) = Finite 100
   \<and> strategies AppState_initial = []
   \<and> strategies (newState (goToWarmup [] ''100'' [(''COR'', True)]
        (Reply False (Some ''AlreadyInitialized'')) AppState_initial)) = [(''COR'', True)]
   \<and> newState (goToWarmup [] ''100'' [(''COR'', True)]
        (Reply False (Some ''AlreadyInitialized'')) AppState_initial) \<noteq> AppState_initial
   \<and> replyIsError Thrown
   \<and> bankroll (newState (app_js_goToWarmup ''100'' [(''COR'', True)] Thrown state_initial))
        = Finite 100
   \<and> bankroll state_initial = Finite 0"
  by (simp add: replyIsError_def goToWarmup_def app_js_goToWarmup_def parseFloat_samples
      collectStrategies_COR hasActiveStrategy_def js_not_def js_le_zero_def errorOr_def
      AppState_initial_def state_initial_def Let_def)

text \<open>
  C5 (amended). A call that local validation rejects (nothing is sent) leaves the whole
  client state as it was, for initialize, warmup and spin. A warmup or spin call that
  the server rejects, or whose request fails, leaves the whole client state as it was.
  An initialize call that the server rejects leaves \<open>warmupNumbers\<close>, \<open>initialized\<close> and the
  current screen as they were, while \<open>bankroll\<close> and \<open>strategies\<close> hold the submitted
  values, which were stored before the request was sent.
\<close>

theorem rejected_calls_and_client_state:
  fixes s :: AppState and t :: state
  shows "(sent (goToWarmup doc b cbs reply s) = [] \<longrightarrow> newState (goToWarmup doc b cbs reply s) = s)
       \<and> (sent (startGame doc reply s) = [] \<longrightarrow> newState (startGame doc reply s) = s)
       \<and> (sent (processSpin v reply s) = [] \<longrightarrow> newState (processSpin v reply s) = s)
       \<and> (sent (app_js_goToWarmup b cbs reply t) = [] \<longrightarrow>
            newState (app_js_goToWarmup b cbs reply t) = t)
       \<and> (sent (app_js_startGame reply t) = [] \<longrightarrow> newState (app_js_startGame reply t) = t)
       \<and> (sent (app_js_processSpin v reply t) = [] \<longrightarrow> newState (app_js_processSpin v reply t) = t)
       \<and> (replyIsError reply \<longrightarrow>
            newState (startGame doc reply s) = s
          \<and> newState (processSpin v reply s) = s
          \<and> newState (app_js_startGame reply t) = t
          \<and> newState (app_js_processSpin v reply t) = t
          \<and> warmupNumbers (newState (goToWarmup doc b cbs reply s)) = warmupNumbers s
          \<and> initialized (newState (goToWarmup doc b cbs reply s)) = initialized s
          \<and> currentScreen (newState (goToWarmup doc b cbs reply s)) = currentScreen s
          \<and> warmupNumbers (newState (app_js_goToWarmup b cbs reply t)) = warmupNumbers t
          \<and> initialized (newState (app_js_goToWarmup b cbs reply t)) = initialized t
          \<and> (sent (goToWarmup doc b cbs reply s) \<noteq> [] \<longrightarrow>
                newState (goToWarmup doc b cbs reply s)
                  = s\<lparr>bankroll := parseFloat b, strategies := collectStrategies cbs\<rparr>)
          \<and> (sent (app_js_goToWarmup b cbs reply t) \<noteq> [] \<longrightarrow>
                newState (app_js_goToWarmup b cbs reply t)
                  = t\<lparr>bankroll := parseFloat b, strategies := collectStrategies cbs\<rparr>))"
proof (intro conjI impI)
  show "newState (goToWarmup doc b cbs reply s) = s" if "sent (goToWarmup doc b cbs reply s) = []"
    using that by (simp add: goToWarmup_sent goToWarmup_rejected_locally split: if_splits)
  show "newState (app_js_goToWarmup b cbs reply t) = t"
    if "sent (app_js_goToWarmup b cbs reply t) = []"
    using that by (simp add: app_js_goToWarmup_sent app_js_goToWarmup_rejected_locally split: if_splits)
  show "newState (startGame doc reply s) = s" if "sent (startGame doc reply s) = []"
    using that by (simp add: startGame_def Let_def split: if_splits api_reply.splits)
  show "newState (app_js_startGame reply t) = t" if "sent (app_js_startGame reply t) = []"
    using that by (simp add: app_js_startGame_def Let_def split: if_splits api_reply.splits)
  show "newState (processSpin v reply s) = s"
    by (simp add: processSpin_def Let_def split: api_reply.splits)
  show "newState (app_js_processSpin v reply t) = t"
    by (simp add: app_js_processSpin_def Let_def split: api_reply.splits)
  show "newState (processSpin v reply s) = s"
    by (simp add: processSpin_def Let_def split: api_reply.splits)
  show "newState (app_js_processSpin v reply t) = t"
    by (simp add: app_js_processSpin_def Let_def split: api_reply.splits)
next
  assume e: "replyIsError reply"
  show "newState (startGame doc reply s) = s"
    using e by (simp add: startGame_def replyIsError_def Let_def split: api_reply.splits)
  show "newState (app_js_startGame reply t) = t"
    using e by (simp add: app_js_startGame_def replyIsError_def Let_def split: api_reply.splits)
  show "warmupNumbers (newState (goToWarmup doc b cbs reply s)) = warmupNumbers s"
    using e by (simp add: goToWarmup_def replyIsError_def Let_def split: api_reply.splits)
  show "initialized (newState (goToWarmup doc b cbs reply s)) = initialized s"
    using e by (simp add: goToWarmup_def replyIsError_def Let_def split: api_reply.splits)
  show "currentScreen (newState (goToWarmup doc b cbs reply s)) = currentScreen s"
    using e by (simp add: goToWarmup_def replyIsError_def Let_def split: api_reply.splits)
  show "warmupNumbers (newState (app_js_goToWarmup b cbs reply t)) = warmupNumbers t"
    using e by (simp add: app_js_goToWarmup_def replyIsError_def Let_def split: api_reply.splits)
  show "initialized (newState (app_js_goToWarmup b cbs reply t)) = initialized t"
    using e by (simp add: app_js_goToWarmup_def replyIsError_def Let_def split: api_reply.splits)
  show "newState (goToWarmup doc b cbs reply s)
      = s\<lparr>bankroll := parseFloat b, strategies := collectStrategies cbs\<rparr>"
    if "sent (goToWarmup doc b cbs reply s) \<noteq> []"
    using e that
    by (simp add: goToWarmup_def replyIsError_def Let_def split: api_reply.splits if_splits)
  show "newState (app_js_goToWarmup b cbs reply t)
      = t\<lparr>bankroll := parseFloat b, strategies := collectStrategies cbs\<rparr>"
    if "sent (app_js_goToWarmup b cbs reply t) \<noteq> []"
    using that
    by (simp add: app_js_goToWarmup_def Let_def split: api_reply.splits if_splits)
qed

theorem rejected_calls_and_client_state_witness:
  "sent (goToWarmup [] ''0'' [(''COR'', True)] Thrown AppState_initial) = []
   \<and> newState (goToWarmup [] ''0'' [(''COR'', True)] Thrown AppState_initial) = AppState_initial
   \<and> replyIsError Thrown
   \<and> newState (processSpin ''17'' Thrown AppState_initial) = AppState_initial
   \<and> sent (goToWarmup [] ''100'' [(''COR'', True)] Thrown AppState_initial) \<noteq> []
   \<and> newState (goToWarmup [] ''100'' [(''COR'', True)] Thrown AppState_initial)
        = AppState_initial\<lparr>bankroll := Finite 100, strategies := [(''COR'', True)]\<rparr>"
proof -
  note c = collectStrategies_COR
  have e: "replyIsError Thrown" by (simp add: replyIsError_def)
  have z: "sent (goToWarmup [] ''0'' [(''COR'', True)] Thrown AppState_initial) = []"
    by (simp add: goToWarmup_sent parseFloat_samples js_gt_zero_def)
  have p: "sent (goToWarmup [] ''100'' [(''COR'', True)] Thrown AppState_initial) \<noteq> []"
    by (simp add: goToWarmup_sent parseFloat_samples js_gt_zero_def c hasActiveStrategy_def)
  from rejected_calls_and_client_state
    [of "[]" "''0''" "[(''COR'', True)]" Thrown AppState_initial "''17''" state_initial] z
  have 1: "newState (goToWarmup [] ''0'' [(''COR'', True)] Thrown AppState_initial)
      = AppState_initial" by blast
  from rejected_calls_and_client_state
    [of "[]" "''100''" "[(''COR'', True)]" Thrown AppState_initial "''17''" state_initial] e p
  have 2: "newState (processSpin ''17'' Thrown AppState_initial) = AppState_initial"
    and 3: "newState (goToWarmup [] ''100'' [(''COR'', True)] Thrown AppState_initial)
        = AppState_initial\<lparr>bankroll := parseFloat ''100'',
            strategies := collectStrategies [(''COR'', True)]\<rparr>"
    by blast+
  show ?thesis using z e p 1 2 3 by (simp add: c parseFloat_samples)
qed

text \<open>
  C8. After a reset that the server confirms, on a page that has the setup screen, the
  client state is the initial one in every field (bankroll 0, no strategies, no warmup
  numbers, not initialized, screen \<open>setup\<close>), whatever it was before; one \<open>Reset\<close> request
  was sent.
\<close>

theorem reset_restores_initial_state:
  assumes "''setupScreen'' \<in> set doc"
  shows "newState (executeReset doc (Reply True err) s) = AppState_initial
       \<and> sent (executeReset doc (Reply True err) s) = [Reset]"
proof -
  have r: "replace ''Screen'' [] ''setupScreen'' = ''setup''" by simp
  show ?thesis
    using assms by (simp add: executeReset_def showScreen_def r AppState_initial_def)
qed

theorem reset_restores_initial_state_witness:
  "''setupScreen'' \<in> set [''setupScreen'', ''warmupScreen'', ''gameScreen'']
   \<and> newState (executeReset [''setupScreen'', ''warmupScreen'', ''gameScreen''] (Reply True None)
        \<lparr>bankroll = Finite 100, strategies = [(''COR'', True)], warmupNumbers = [''7'', ''00''],
         initialized = True, currentScreen = ''game''\<rparr>) = AppState_initial"
proof -
  have m: "''setupScreen'' \<in> set [''setupScreen'', ''warmupScreen'', ''gameScreen'']" by simp
  from reset_restores_initial_state[OF m, of None]
  show ?thesis using m by blast
qed

section \<open>The history window\<close>

lemma updateHistory_with_result:
  assumes "r < length h"
  shows "updateHistory_with color (Some r) h =
     (if h ! r = [] then (NoHistory, h)
      else (HistoryNumbers (map (\<lambda>num. (color num, num)) (rev (drop (length (h ! r) - 20) (h ! r)))),
            h @ [rev (drop (length (h ! r) - 20) (h ! r))]))"
proof -
  have k: "nat (max (int (length (h ! r)) - 20) 0) = length (h ! r) - 20" by simp
  show ?thesis
    by (simp add: updateHistory_with_def Array_slice_def Array_reverse_def Let_def k
        nth_append del: max.absorb1 max.absorb2 max.absorb3 max.absorb4)
qed

lemma updateHistory_with_None: "updateHistory_with color None h = (NoHistory, h)"
  by (simp add: updateHistory_with_def)

lemma window_nth:
  assumes "i < min 20 (length xs)"
  shows "rev (drop (length xs - 20) xs) ! i = xs ! (length xs - 1 - i)"
proof -
  define d where "d = length xs - 20"
  have len: "i < length (drop d xs)" using assms by (simp add: d_def; arith)
  have idx: "d + (length (drop d xs) - Suc i) = length xs - 1 - i"
    using assms by (simp add: d_def; arith)
  have "rev (drop d xs) ! i = drop d xs ! (length (drop d xs) - Suc i)"
    using len by (rule rev_nth)
  also have "\<dots> = xs ! (d + (length (drop d xs) - Suc i))"
    by (rule nth_drop) (simp add: d_def)
  finally show ?thesis unfolding idx unfolding d_def .
qed

lemma history_window:
  assumes "r < length h"
  shows "snd (updateHistory_with color (Some r) h) ! r = h ! r
       \<and> take (length h) (snd (updateHistory_with color (Some r) h)) = h
       \<and> shownNumbers (fst (updateHistory_with color (Some r) h))
           = rev (drop (length (h ! r) - 20) (h ! r))
       \<and> length (shownNumbers (fst (updateHistory_with color (Some r) h)))
           = min 20 (length (h ! r))
       \<and> (\<forall>i < min 20 (length (h ! r)).
             shownNumbers (fst (updateHistory_with color (Some r) h)) ! i
               = (h ! r) ! (length (h ! r) - 1 - i))"
proof (cases "h ! r = []")
  case True
  then show ?thesis
    using assms by (simp add: updateHistory_with_result shownNumbers_def)
next
  case False
  have s: "shownNumbers (fst (updateHistory_with color (Some r) h))
      = rev (drop (length (h ! r) - 20) (h ! r))"
    using assms False by (simp add: updateHistory_with_result shownNumbers_def comp_def rev_map)
  have "snd (updateHistory_with color (Some r) h) ! r = h ! r"
    using assms False by (simp add: updateHistory_with_result nth_append)
  moreover have "take (length h) (snd (updateHistory_with color (Some r) h)) = h"
    using assms False by (simp add: updateHistory_with_result)
  moreover have "length (rev (drop (length (h ! r) - 20) (h ! r))) = min 20 (length (h ! r))"
    by simp
  moreover have "\<forall>i < min 20 (length (h ! r)).
      rev (drop (length (h ! r) - 20) (h ! r)) ! i = (h ! r) ! (length (h ! r) - 1 - i)"
    using window_nth by blast
  ultimately show ?thesis unfolding s by blast
qed

text \<open>
  C7. \<open>updateHistory\<close>, in both front ends, displays the last \<open>min(20, length)\<close> numbers
  of the history, the most recent first, and leaves the history array, like every other
  array of the heap, as it was: the reversal works on the copy made by \<open>slice\<close>. A
  missing history displays nothing and changes nothing.
\<close>

theorem history_display_is_a_window:
  assumes "r < length h"
  shows "snd (updateHistory (Some r) h) ! r = h ! r
       \<and> take (length h) (snd (updateHistory (Some r) h)) = h
       \<and> shownNumbers (fst (updateHistory (Some r) h)) = rev (drop (length (h ! r) - 20) (h ! r))
       \<and> length (shownNumbers (fst (updateHistory (Some r) h))) = min 20 (length (h ! r))
       \<and> (\<forall>i < min 20 (length (h ! r)).
             shownNumbers (fst (updateHistory (Some r) h)) ! i = (h ! r) ! (length (h ! r) - 1 - i))
       \<and> snd (app_js_updateHistory (Some r) h) ! r = h ! r
       \<and> take (length h) (snd (app_js_updateHistory (Some r) h)) = h
       \<and> shownNumbers (fst (app_js_updateHistory (Some r) h))
           = rev (drop (length (h ! r) - 20) (h ! r))
       \<and> length (shownNumbers (fst (app_js_updateHistory (Some r) h))) = min 20 (length (h ! r))
       \<and> (\<forall>i < min 20 (length (h ! r)).
             shownNumbers (fst (app_js_updateHistory (Some r) h)) ! i
               = (h ! r) ! (length (h ! r) - 1 - i))
       \<and> updateHistory None h = (NoHistory, h)
       \<and> app_js_updateHistory None h = (NoHistory, h)"
  using history_window[OF assms, of getNumberColor] history_window[OF assms, of app_js_getNumberColor]
  unfolding updateHistory_def app_js_updateHistory_def updateHistory_with_None
  by blast

theorem history_display_is_a_window_witness:
  "(0::nat) < length [map token_of_nat [1..<23]]
   \<and> snd (updateHistory (Some 0) [map token_of_nat [1..<23]]) ! 0 = map token_of_nat [1..<23]
   \<and> length (shownNumbers (fst (updateHistory (Some 0) [map token_of_nat [1..<23]]))) = 20
   \<and> (0::nat) < min 20 (length (map token_of_nat [1..<23]))
   \<and> shownNumbers (fst (updateHistory (Some 0) [map token_of_nat [1..<23]])) ! 0 = ''22''"
proof -
  have l: "(0::nat) < length [map token_of_nat [1..<23]]" by simp
  have n: "length (map token_of_nat [1..<23]) = 22" by simp
  have e: "map token_of_nat [1..<23] ! 21 = ''22''" by code_simp
  note th = history_display_is_a_window[OF l]
  from th have 1: "snd (updateHistory (Some 0) [map token_of_nat [1..<23]]) ! 0
      = [map token_of_nat [1..<23]] ! 0" by blast
  from th have 2: "length (shownNumbers (fst (updateHistory (Some 0) [map token_of_nat [1..<23]])))
      = min 20 (length ([map token_of_nat [1..<23]] ! 0))" by blast
  from th have 3: "\<forall>i < min 20 (length ([map token_of_nat [1..<23]] ! 0)).
      shownNumbers (fst (updateHistory (Some 0) [map token_of_nat [1..<23]])) ! i
        = ([map token_of_nat [1..<23]] ! 0) ! (length ([map token_of_nat [1..<23]] ! 0) - 1 - i)"
    by blast
  have z: "(0::nat) < min 20 (length ([map token_of_nat [1..<23]] ! 0))" by simp
  from 3 z have 4: "shownNumbers (fst (updateHistory (Some 0) [map token_of_nat [1..<23]])) ! 0
      = ([map token_of_nat [1..<23]] ! 0) ! (length ([map token_of_nat [1..<23]] ! 0) - 1 - 0)"
    by blast
  have 5: "([map token_of_nat [1..<23]] ! 0) ! (length ([map token_of_nat [1..<23]] ! 0) - 1 - 0)
      = ''22''"
    using e by (simp del: upt_Suc map_upt_Suc add: n)
  show ?thesis using 1 2 4 5 by (simp del: upt_Suc map_upt_Suc)
qed

end
